theory Spec2Isabelle
  imports Main
begin

section \<open>Appointment booking: the availability and scheduling engine\<close>

text \<open>
  A shallow embedding of \<^verbatim>\<open>src/appointments/appointments.service.ts\<close>.

  Modelling conventions.
  \<^item> A JavaScript \<^verbatim>\<open>Date\<close> is its time value: an \<open>int\<close> of milliseconds since
    1970-01-01T00:00:00.000Z. A time value is that of a valid \<^verbatim>\<open>Date\<close> when it lies
    within 8640000000000000 of zero (\<open>validDate\<close>). A comparison with an invalid
    \<^verbatim>\<open>Date\<close> is false, and \<^verbatim>\<open>toISOString()\<close> of one throws \<^verbatim>\<open>RangeError\<close>.
  \<^item> The \<^verbatim>\<open>start\<close> and \<^verbatim>\<open>end\<close> of a stored appointment are strings, as the schema
    has them, and the store compares them as strings (\<open>strLess\<close>). \<open>isoString\<close>
    is the text \<^verbatim>\<open>toISOString()\<close> writes. What \<^verbatim>\<open>new Date(s)\<close> makes of a string that a
    client sent or that the store holds is not fixed by the repository: it is the
    parameter \<open>P\<close>, with \<open>None\<close> for a string that is not a date.
  \<^item> The slots of the availability engine are ISO strings that the engine itself
    prints with \<^verbatim>\<open>toISOString()\<close> and reads back with \<^verbatim>\<open>new Date\<close>: a slot is
    represented by the instant it denotes.
  \<^item> A calendar date printed by \<^verbatim>\<open>toISOString().split('T')[0]\<close> is its day number:
    days since 1970-01-01. That date of an instant \<open>t\<close> is then \<open>t div 86400000\<close>.
  \<^item> \<^verbatim>\<open>getFullYear\<close>, \<^verbatim>\<open>getMonth\<close>, \<^verbatim>\<open>getDate\<close>, \<^verbatim>\<open>getDay\<close> and
    \<^verbatim>\<open>new Date(y, m, d, 12, 0, 0)\<close> work in the time zone of the process that hosts
    the service. That zone is the parameter \<open>tza\<close>: \<open>tza t\<close> is the number of
    milliseconds the host's clock is ahead of UTC at the instant \<open>t\<close>; a host on
    UTC is \<open>\<lambda>_. 0\<close>.
  \<^item> \<^verbatim>\<open>Date.now()\<close> is the parameter \<open>nowMs\<close>.
  \<^item> The collection behind \<^verbatim>\<open>appointmentModel\<close> is the list of its documents, in
    insertion order; every operation takes it and returns it.
  \<^item> A thrown \<^verbatim>\<open>BadRequestException\<close> is the \<open>Inl\<close> of a sum, with its message.
  \<^item> A time zone offset is a whole number of minutes; \<open>None\<close> is a missing or
    non-numeric one.
  \<^item> A service is one of the four keys of the schema's enum. An \<^verbatim>\<open>_id\<close> is a
    well-formed object id, here a natural number. The schema validation that the
    driver runs on a write is not modelled.
\<close>

subsection \<open>Data\<close>

datatype ServiceKey = consultation | treatment | extraction | prosthetics

fun SERVICE_DURATION_MINUTES :: "ServiceKey \<Rightarrow> int" where
  "SERVICE_DURATION_MINUTES consultation = 15"
| "SERVICE_DURATION_MINUTES treatment = 45"
| "SERVICE_DURATION_MINUTES extraction = 45"
| "SERVICE_DURATION_MINUTES prosthetics = 45"

record Appointment =
  ident :: nat
  name :: string
  phoneNumber :: string
  service :: ServiceKey
  start :: string
  end' :: string

datatype error = BadRequestException string | RangeError

abbreviation OutOfWindow :: error where
  "OutOfWindow \<equiv> BadRequestException ''Outside working hours''"

abbreviation SlotBusy :: error where
  "SlotBusy \<equiv> BadRequestException ''Time slot is busy''"

abbreviation NotFound :: error where
  "NotFound \<equiv> BadRequestException ''Appointment not found''"

text \<open>
  The \<^verbatim>\<open>date\<close> query parameter, by what the code does with the string: missing or
  empty; not a date once \<^verbatim>\<open>'T00:00:00.000Z'\<close> is appended; the text
  \<^verbatim>\<open>toISOString().split('T')[0]\<close> prints for a day, given by the day number; or any
  other string, given by the instant that \<^verbatim>\<open>new Date(dateStr + 'T00:00:00.000Z')\<close>
  makes of it (\<^verbatim>\<open>'2024-06'\<close> is 2024-06-01T00:00Z). A string of the last kind equals no
  printed date.
\<close>

datatype DateParam = NoDate | BadDate | Ymd int | OtherDate int

record WorkingHours =
  startHour :: int
  endHour :: int

record CreateBody =
  body_name :: "string option"
  body_phoneNumber :: "string option"
  body_service :: "ServiceKey option"
  body_start :: "string option"
  body_tzOffset :: "int option"

record UpdateData =
  upd_name :: "string option"
  upd_phoneNumber :: "string option"
  upd_service :: "ServiceKey option"
  upd_start :: "string option"
  upd_tzOffset :: "int option"
  upd_end :: "string option"

record Availability =
  availableSlots :: "int list"
  busySlots :: "int list"
  workingSlots :: "int list"

subsection \<open>Dates and strings of the runtime\<close>

definition validDate :: "int \<Rightarrow> bool" where
  "validDate t = (- 8640000000000000 \<le> t \<and> t \<le> 8640000000000000)"

text \<open>\<^verbatim>\<open>a < b\<close> on two Dates: false when either is invalid.\<close>

definition dateLess :: "int \<Rightarrow> int \<Rightarrow> bool" where
  "dateLess a b = (validDate a \<and> validDate b \<and> a < b)"

text \<open>
  \<^verbatim>\<open>new Date(s)\<close> for a string: the time value, or \<open>None\<close> for an invalid Date.
\<close>

definition newDate :: "(string \<Rightarrow> int option) \<Rightarrow> string \<Rightarrow> int option" where
  "newDate P s = (case P s of Some t \<Rightarrow> if validDate t then Some t else None | None \<Rightarrow> None)"

text \<open>The date part of \<^verbatim>\<open>new Date(t).toISOString()\<close>, as a day number.\<close>

definition isoYmd :: "int \<Rightarrow> int" where
  "isoYmd t = t div 86400000"

text \<open>\<^verbatim>\<open>new Date(ymd + 'T00:00:00.000Z').getTime()\<close>.\<close>

definition midnightUtc :: "int \<Rightarrow> int" where
  "midnightUtc ymd = ymd * 86400000"

text \<open>
  The calendar date that \<^verbatim>\<open>getFullYear()\<close>, \<^verbatim>\<open>getMonth()\<close> and \<^verbatim>\<open>getDate()\<close>
  read off a \<^verbatim>\<open>Date\<close>: the date in the host's zone.
\<close>

definition hostYmd :: "(int \<Rightarrow> int) \<Rightarrow> int \<Rightarrow> int" where
  "hostYmd tza t = (t + tza t) div 86400000"

text \<open>
  \<^verbatim>\<open>getDay()\<close> of noon of a calendar date, in the zone the date was read in:
  0 is Sunday, 6 is Saturday; day 0 (1970-01-01) was a Thursday.
\<close>

definition getDay :: "int \<Rightarrow> int" where
  "getDay ymd = (ymd + 4) mod 7"

text \<open>
  The proleptic Gregorian calendar, months from 1: the day number of a year, month and
  day, and the year, month and day of a day number.
\<close>

definition civilDay :: "int \<Rightarrow> int \<Rightarrow> int \<Rightarrow> int" where
  "civilDay y m d =
     (let y1 = (if m \<le> 2 then y - 1 else y);
          era = y1 div 400;
          yoe = y1 - era * 400;
          mp = (m + 9) mod 12;
          doy = (153 * mp + 2) div 5 + d - 1;
          doe = yoe * 365 + yoe div 4 - yoe div 100 + doy
      in era * 146097 + doe - 719468)"

definition civilFromDays :: "int \<Rightarrow> int \<times> int \<times> int" where
  "civilFromDays n =
     (let z = n + 719468;
          era = z div 146097;
          doe = z - era * 146097;
          yoe = (doe - doe div 1460 + doe div 36524 - doe div 146096) div 365;
          doy = doe - (365 * yoe + yoe div 4 - yoe div 100);
          mp = (5 * doy + 2) div 153;
          d = doy - (153 * mp + 2) div 5 + 1;
          m = (if mp < 10 then mp + 3 else mp - 9);
          y = yoe + era * 400
      in (if m \<le> 2 then y + 1 else y, m, d))"

text \<open>
  The instant an ISO string \<^verbatim>\<open>y-m-dTh:mi:00.000Z\<close> denotes, to write concrete instants
  legibly.
\<close>

definition isoUTC :: "int \<Rightarrow> int \<Rightarrow> int \<Rightarrow> int \<Rightarrow> int \<Rightarrow> int" where
  "isoUTC y m d h mi = ((civilDay y m d * 24 + h) * 60 + mi) * 60000"

text \<open>
  The text of \<^verbatim>\<open>toISOString()\<close>: \<^verbatim>\<open>YYYY-MM-DDTHH:mm:ss.sssZ\<close>, the year with a sign
  and six digits outside 0 to 9999.
\<close>

definition digitChar :: "int \<Rightarrow> char" where
  "digitChar d = ''0123456789'' ! nat d"

fun pad :: "nat \<Rightarrow> int \<Rightarrow> string" where
  "pad 0 k = []"
| "pad (Suc n) k = pad n (k div 10) @ [digitChar (k mod 10)]"

definition isoYear :: "int \<Rightarrow> string" where
  "isoYear y = (if 0 \<le> y \<and> y \<le> 9999 then pad 4 y
                else if y < 0 then CHR ''-'' # pad 6 (- y) else CHR ''+'' # pad 6 y)"

definition isoString :: "int \<Rightarrow> string" where
  "isoString t =
     (let ymd = civilFromDays (t div 86400000);
          r = t mod 86400000
      in isoYear (fst ymd) @ ''-'' @ pad 2 (fst (snd ymd)) @ ''-'' @ pad 2 (snd (snd ymd))
         @ ''T'' @ pad 2 (r div 3600000) @ '':'' @ pad 2 (r div 60000 mod 60)
         @ '':'' @ pad 2 (r div 1000 mod 60) @ ''.'' @ pad 3 (r mod 1000) @ ''Z'')"

text \<open>The order in which the store compares two strings: by character codes.\<close>

fun strLess :: "string \<Rightarrow> string \<Rightarrow> bool" where
  "strLess [] [] = False"
| "strLess [] (y # ys) = True"
| "strLess (x # xs) [] = False"
| "strLess (x # xs) (y # ys) =
     (if x = y then strLess xs ys else (of_char x :: nat) < of_char y)"

subsection \<open>Working hours\<close>

text \<open>
  \<^verbatim>\<open>Number.isFinite(parsedOffset) ? parsedOffset : 0\<close> (create, update) and
  \<^verbatim>\<open>typeof tzOffsetMinutes === 'number' && Number.isFinite(tzOffsetMinutes) ? tzOffsetMinutes : 0\<close>
  (availability).
\<close>

definition finiteOrZero :: "int option \<Rightarrow> int" where
  "finiteOrZero parsedOffset = (case parsedOffset of Some m \<Rightarrow> m | None \<Rightarrow> 0)"

text \<open>
  \<^verbatim>\<open>new Date(y, m, d, 12, 0, 0)\<close> takes a year from 0 to 99 for a year of the twentieth
  century; for any other year the date it makes is the date it was given. It makes an
  invalid \<^verbatim>\<open>Date\<close> when \<open>localDate\<close> is invalid or when noon of that date, in the host's
  zone, is out of the range of \<^verbatim>\<open>Date\<close>; \<^verbatim>\<open>getDay()\<close> of an invalid \<^verbatim>\<open>Date\<close> is
  \<^verbatim>\<open>NaN\<close>, which is neither 0 nor 6. The host's offset at that noon is taken to be its
  offset at \<open>localDate\<close>.
\<close>

definition getWorkingHours :: "(int \<Rightarrow> int) \<Rightarrow> int \<Rightarrow> int option \<Rightarrow> WorkingHours" where
  "getWorkingHours tza dateUtc tzOffsetMinutes =
     (let offsetMs = (case tzOffsetMinutes of Some m \<Rightarrow> m | None \<Rightarrow> 0) * 60000;
          localDate = dateUtc - offsetMs;
          ymd = civilFromDays (hostYmd tza localDate);
          localNoon = (if 0 \<le> fst ymd \<and> fst ymd \<le> 99
                       then civilDay (1900 + fst ymd) (fst (snd ymd)) (snd (snd ymd))
                       else hostYmd tza localDate);
          localNoonValid = (validDate localDate
                            \<and> validDate (localNoon * 86400000 + 12 * 3600000 - tza localDate));
          day = getDay localNoon
      in if localNoonValid \<and> (day = 0 \<or> day = 6)
         then \<lparr>startHour = 9, endHour = 13\<rparr>
         else \<lparr>startHour = 9, endHour = 18\<rparr>)"

subsection \<open>Slots\<close>

text \<open>
  The \<^verbatim>\<open>for\<close> loop of \<^verbatim>\<open>generateSlots\<close>, with the array it pushes to. Nothing in
  the loop stops it when \<open>slotMinutes \<le> 0\<close>: not returning is \<open>None\<close>.
\<close>

partial_function (option) slotLoop :: "int \<Rightarrow> int \<Rightarrow> int \<Rightarrow> int \<Rightarrow> int list \<Rightarrow> int list option" where
  "slotLoop t endMs slotMinutes durationMinutes slots =
     (if t + durationMinutes * 60000 \<le> endMs
      then slotLoop (t + slotMinutes * 60000) endMs slotMinutes durationMinutes (slots @ [t])
      else Some slots)"

declare slotLoop.simps [code]

definition localMidnightUtcMs :: "int \<Rightarrow> int \<Rightarrow> int" where
  "localMidnightUtcMs dateUtc offsetMs = midnightUtc (isoYmd (dateUtc - offsetMs)) + offsetMs"

definition generateSlots :: "(int \<Rightarrow> int) \<Rightarrow> int \<Rightarrow> int \<Rightarrow> int \<Rightarrow> int option \<Rightarrow> int list option" where
  "generateSlots tza dateUtc slotMinutes durationMinutes tzOffsetMinutes =
     (let w = getWorkingHours tza dateUtc tzOffsetMinutes;
          offsetMs = (case tzOffsetMinutes of Some m \<Rightarrow> m | None \<Rightarrow> 0) * 60000;
          startMs = localMidnightUtcMs dateUtc offsetMs + startHour w * 60 * 60000;
          endMs = localMidnightUtcMs dateUtc offsetMs + endHour w * 60 * 60000
      in slotLoop startMs endMs slotMinutes durationMinutes [])"

subsection \<open>Availability\<close>

text \<open>
  The query compares the stored strings with the ISO strings of the first and the last
  millisecond of the local day; \<^verbatim>\<open>toISOString()\<close> throws when the shifted date or one of
  those two is out of the range of \<^verbatim>\<open>Date\<close>.
\<close>

definition getBusyIntervalsISO ::
  "Appointment list \<Rightarrow> int \<Rightarrow> int option \<Rightarrow> error + (string \<times> string) list" where
  "getBusyIntervalsISO docs dateUtc tzOffsetMinutes =
     (let offsetMs = (case tzOffsetMinutes of Some m \<Rightarrow> m | None \<Rightarrow> 0) * 60000;
          dayStart = localMidnightUtcMs dateUtc offsetMs;
          dayEnd = localMidnightUtcMs dateUtc offsetMs + 24 * 60 * 60000 - 1
      in if validDate (dateUtc - offsetMs) \<and> validDate dayEnd \<and> validDate dayStart
         then (let appts = filter (\<lambda>a. strLess (start a) (isoString dayEnd)
                                        \<and> strLess (isoString dayStart) (end' a)) docs
               in Inr (map (\<lambda>a. (start a, end' a)) appts))
         else Inl RangeError)"

text \<open>\<^verbatim>\<open>Set.add\<close>: a JavaScript \<^verbatim>\<open>Set\<close> keeps its elements in insertion order.\<close>

definition setAdd :: "int \<Rightarrow> int list \<Rightarrow> int list" where
  "setAdd x xs = (if x \<in> set xs then xs else xs @ [x])"

text \<open>
  \<^verbatim>\<open>t >= s && t < e\<close> for the time values \<open>s\<close> and \<open>e\<close> of two Dates made from strings:
  false when either is NaN.
\<close>

definition inInterval :: "int option \<Rightarrow> int option \<Rightarrow> int \<Rightarrow> bool" where
  "inInterval s e t = (case (s, e) of (Some s', Some e') \<Rightarrow> t \<ge> s' \<and> t < e' | _ \<Rightarrow> False)"

definition markBusy :: "(string \<Rightarrow> int option) \<Rightarrow> (string \<times> string) list \<Rightarrow> int list \<Rightarrow> int list" where
  "markBusy P busyIntervals allSlots =
     fold (\<lambda>interval busy.
             fold (\<lambda>t b. if inInterval (newDate P (fst interval)) (newDate P (snd interval)) t
                         then setAdd t b else b)
                  allSlots busy)
          busyIntervals []"

text \<open>\<^verbatim>\<open>Math.ceil(a / b)\<close> on whole numbers.\<close>

definition ceilDiv :: "int \<Rightarrow> int \<Rightarrow> int" where
  "ceilDiv a b = - ((- a) div b)"

text \<open>The callback of \<^verbatim>\<open>serviceSpecificStarts.filter\<close>.\<close>

definition chunksFree :: "int list \<Rightarrow> int \<Rightarrow> int \<Rightarrow> int \<Rightarrow> bool" where
  "chunksFree busy chunksNeeded slotMinutes startMs =
     list_all (\<lambda>i. startMs + i * slotMinutes * 60000 \<notin> set busy) [0 .. chunksNeeded - 1]"

text \<open>
  \<^verbatim>\<open>new Date(dateStr + 'T00:00:00.000Z')\<close>, with \<open>None\<close> for an invalid Date (a day or
  an instant out of the range of \<^verbatim>\<open>Date\<close> is not a date), and
  \<^verbatim>\<open>dateStr === todayClientLocal\<close> for the printed date of a day.
\<close>

fun dateInstant :: "DateParam \<Rightarrow> int option" where
  "dateInstant NoDate = None"
| "dateInstant BadDate = None"
| "dateInstant (Ymd ymd) = (if validDate (midnightUtc ymd) then Some (midnightUtc ymd) else None)"
| "dateInstant (OtherDate t) = (if validDate t then Some t else None)"

fun equalsPrintedDate :: "DateParam \<Rightarrow> int \<Rightarrow> bool" where
  "equalsPrintedDate (Ymd ymd) today = (ymd = today)"
| "equalsPrintedDate NoDate today = False"
| "equalsPrintedDate BadDate today = False"
| "equalsPrintedDate (OtherDate t) today = False"

text \<open>
  The slots \<^verbatim>\<open>generateSlots\<close> pushes are \<^verbatim>\<open>new Date(t).toISOString()\<close>, which throws for
  an instant out of the range of \<^verbatim>\<open>Date\<close>.
\<close>

definition toISOStrings :: "int list \<Rightarrow> error + int list" where
  "toISOStrings slots = (if list_all validDate slots then Inr slots else Inl RangeError)"

text \<open>
  \<^verbatim>\<open>generateSlots\<close> throws before its loop when the date shifted by the offset is out of
  range, and \<^verbatim>\<open>todayClientLocal\<close> is printed from \<open>nowMs + offsetMs\<close>. The chunks of a
  candidate start are printed too; they are instants of the 15-minute grid, which was
  printed before.
\<close>

definition getAvailabilityForDate ::
  "(string \<Rightarrow> int option) \<Rightarrow> (int \<Rightarrow> int) \<Rightarrow> int \<Rightarrow> Appointment list \<Rightarrow> DateParam
     \<Rightarrow> ServiceKey option \<Rightarrow> int option \<Rightarrow> (error + Availability) option" where
  "getAvailabilityForDate P tza nowMs docs dateStr serviceOpt tzOffsetMinutes =
     (if dateStr = NoDate
      then Some (Inl (BadRequestException ''date is required (YYYY-MM-DD)''))
      else case dateInstant dateStr of
        None \<Rightarrow> Some (Inl (BadRequestException ''invalid date''))
      | Some date \<Rightarrow>
         (let slotMinutes = 15;
              durationMinutes = (case serviceOpt of Some s \<Rightarrow> SERVICE_DURATION_MINUTES s | None \<Rightarrow> 45);
              effectiveTzOffset = finiteOrZero tzOffsetMinutes
          in if \<not> validDate (date - effectiveTzOffset * 60000) then Some (Inl RangeError)
             else
              case generateSlots tza date slotMinutes slotMinutes (Some effectiveTzOffset) of
                None \<Rightarrow> None
              | Some allInstants \<Rightarrow>
                 (case toISOStrings allInstants of
                    Inl e \<Rightarrow> Some (Inl e)
                  | Inr allSlots \<Rightarrow>
                     (case getBusyIntervalsISO docs date (Some effectiveTzOffset) of
                        Inl e \<Rightarrow> Some (Inl e)
                      | Inr busyIntervals \<Rightarrow>
                         (let busy = markBusy P busyIntervals allSlots
                          in case generateSlots tza date slotMinutes durationMinutes (Some effectiveTzOffset) of
                               None \<Rightarrow> None
                             | Some startInstants \<Rightarrow>
                                (case toISOStrings startInstants of
                                   Inl e \<Rightarrow> Some (Inl e)
                                 | Inr serviceSpecificStarts \<Rightarrow>
                                    (let chunksNeeded = max 1 (ceilDiv durationMinutes slotMinutes);
                                         available = filter (chunksFree busy chunksNeeded slotMinutes)
                                                       serviceSpecificStarts;
                                         offsetMs = effectiveTzOffset * 60000
                                     in if \<not> validDate (nowMs + offsetMs) then Some (Inl RangeError)
                                        else
                                         (let todayClientLocal = isoYmd (nowMs + offsetMs);
                                              available' = (if equalsPrintedDate dateStr todayClientLocal
                                                            then filter (\<lambda>iso. iso > nowMs) available
                                                            else available)
                                          in Some (Inr \<lparr>availableSlots = available', busySlots = busy,
                                                        workingSlots = allSlots\<rparr>)))))))))"

subsection \<open>The store\<close>

text \<open>\<^verbatim>\<open>findById\<close>.\<close>

definition findById :: "Appointment list \<Rightarrow> nat \<Rightarrow> Appointment option" where
  "findById docs i = find (\<lambda>a. ident a = i) docs"

text \<open>The \<^verbatim>\<open>_id\<close> the driver gives a new document: one no document has.\<close>

definition newId :: "Appointment list \<Rightarrow> nat" where
  "newId docs = Suc (fold max (map ident docs) 0)"

text \<open>
  \<^verbatim>\<open>$set\<close>: the fields the update names replace the document's, as they were sent.
\<close>

definition applySet :: "UpdateData \<Rightarrow> Appointment \<Rightarrow> Appointment" where
  "applySet u a =
     \<lparr>ident = ident a,
      name = (case upd_name u of Some v \<Rightarrow> v | None \<Rightarrow> name a),
      phoneNumber = (case upd_phoneNumber u of Some v \<Rightarrow> v | None \<Rightarrow> phoneNumber a),
      service = (case upd_service u of Some v \<Rightarrow> v | None \<Rightarrow> service a),
      start = (case upd_start u of Some v \<Rightarrow> v | None \<Rightarrow> start a),
      end' = (case upd_end u of Some v \<Rightarrow> v | None \<Rightarrow> end' a)\<rparr>"

fun setById :: "nat \<Rightarrow> UpdateData \<Rightarrow> Appointment list \<Rightarrow> Appointment list" where
  "setById i u [] = []"
| "setById i u (a # as) = (if ident a = i then applySet u a # as else a # setById i u as)"

fun removeById :: "nat \<Rightarrow> Appointment list \<Rightarrow> Appointment list" where
  "removeById i [] = []"
| "removeById i (a # as) = (if ident a = i then as else a # removeById i as)"

subsection \<open>Create, update, delete\<close>

text \<open>\<^verbatim>\<open>!s\<close> for a string that may be missing.\<close>

definition falsy :: "string option \<Rightarrow> bool" where
  "falsy s = (s = None \<or> s = Some [])"

text \<open>
  In create and update, \<^verbatim>\<open>new Date(startDate.getTime() - offsetMs).toISOString()\<close>
  throws \<^verbatim>\<open>RangeError\<close> when that Date is invalid, and so does
  \<^verbatim>\<open>endDate.toISOString()\<close> in the overlap query, which comes after the working-hours
  test. \<^verbatim>\<open>dayStart\<close> and \<^verbatim>\<open>dayEnd\<close> are only compared.
\<close>

definition createAppointment ::
  "(string \<Rightarrow> int option) \<Rightarrow> (int \<Rightarrow> int) \<Rightarrow> Appointment list \<Rightarrow> CreateBody
     \<Rightarrow> (error + Appointment) \<times> Appointment list" where
  "createAppointment P tza docs body =
     (if falsy (body_name body) \<or> falsy (body_phoneNumber body) \<or> body_service body = None
         \<or> falsy (body_start body)
      then (Inl (BadRequestException ''name, phoneNumber, service, start are required''), docs)
      else case (body_name body, body_phoneNumber body, body_service body, body_start body) of
        (Some nm, Some ph, Some svc, Some st) \<Rightarrow>
         (case newDate P st of
            None \<Rightarrow> (Inl (BadRequestException ''invalid start''), docs)
          | Some startDate \<Rightarrow>
             (let durationMinutes = SERVICE_DURATION_MINUTES svc;
                  endDate = startDate + durationMinutes * 60000;
                  effectiveTzOffset = finiteOrZero (body_tzOffset body);
                  w = getWorkingHours tza startDate (Some effectiveTzOffset);
                  offsetMs = effectiveTzOffset * 60000
              in if \<not> validDate (startDate - offsetMs) then (Inl RangeError, docs)
                 else
                  (let dayStart = localMidnightUtcMs startDate offsetMs + startHour w * 60 * 60000;
                       dayEnd = localMidnightUtcMs startDate offsetMs + endHour w * 60 * 60000
                   in if dateLess startDate dayStart \<or> dateLess dayEnd endDate
                      then (Inl OutOfWindow, docs)
                      else if \<not> validDate endDate then (Inl RangeError, docs)
                      else if list_ex (\<lambda>a. strLess (start a) (isoString endDate)
                                            \<and> strLess (isoString startDate) (end' a)) docs
                      then (Inl SlotBusy, docs)
                      else (let doc = \<lparr>ident = newId docs, name = nm, phoneNumber = ph, service = svc,
                                        start = isoString startDate, end' = isoString endDate\<rparr>
                            in (Inr doc, docs @ [doc])))))
      | _ \<Rightarrow> (Inl (BadRequestException ''name, phoneNumber, service, start are required''), docs))"

text \<open>
  The last case of \<open>createAppointment\<close> is never taken: the test before it has excluded a
  missing name, phone number, service and start.
\<close>

definition deleteAppointment :: "Appointment list \<Rightarrow> nat \<Rightarrow> (error + string) \<times> Appointment list" where
  "deleteAppointment docs i =
     (case findById docs i of
        None \<Rightarrow> (Inl NotFound, docs)
      | Some appointment \<Rightarrow> (Inr ''Appointment deleted successfully'', removeById i docs))"

text \<open>
  \<^verbatim>\<open>findByIdAndUpdate(id, { $set: updateData }, ...)\<close> and the test of its result.
\<close>

definition findByIdAndUpdate ::
  "Appointment list \<Rightarrow> nat \<Rightarrow> UpdateData \<Rightarrow> (error + Appointment) \<times> Appointment list" where
  "findByIdAndUpdate docs i u =
     (let docs' = setById i u docs
      in case findById docs' i of
           None \<Rightarrow> (Inl (BadRequestException ''Failed to update appointment''), docs')
         | Some updatedAppointment \<Rightarrow> (Inr updatedAppointment, docs'))"

text \<open>
  In \<open>updateAppointment\<close> the case of a missing start after the test of
  \<^verbatim>\<open>updateData.start\<close> is never taken.
\<close>

definition updateAppointment ::
  "(string \<Rightarrow> int option) \<Rightarrow> (int \<Rightarrow> int) \<Rightarrow> Appointment list \<Rightarrow> nat \<Rightarrow> UpdateData
     \<Rightarrow> (error + Appointment) \<times> Appointment list" where
  "updateAppointment P tza docs i updateData =
     (case findById docs i of
        None \<Rightarrow> (Inl NotFound, docs)
      | Some appointment \<Rightarrow>
         (if falsy (upd_start updateData) then findByIdAndUpdate docs i updateData
          else case upd_start updateData of
            None \<Rightarrow> findByIdAndUpdate docs i updateData
          | Some st \<Rightarrow>
             (case newDate P st of
                None \<Rightarrow> (Inl (BadRequestException ''invalid start date''), docs)
              | Some startDate \<Rightarrow>
                 (let svc = (case upd_service updateData of Some s \<Rightarrow> s | None \<Rightarrow> service appointment);
                      durationMinutes = SERVICE_DURATION_MINUTES svc;
                      endDate = startDate + durationMinutes * 60000;
                      effectiveTzOffset = finiteOrZero (upd_tzOffset updateData);
                      w = getWorkingHours tza startDate (Some effectiveTzOffset);
                      offsetMs = effectiveTzOffset * 60000
                  in if \<not> validDate (startDate - offsetMs) then (Inl RangeError, docs)
                     else
                      (let dayStart = localMidnightUtcMs startDate offsetMs + startHour w * 60 * 60000;
                           dayEnd = localMidnightUtcMs startDate offsetMs + endHour w * 60 * 60000
                       in if dateLess startDate dayStart \<or> dateLess dayEnd endDate
                          then (Inl OutOfWindow, docs)
                          else if \<not> validDate endDate then (Inl RangeError, docs)
                          else if list_ex (\<lambda>a. ident a \<noteq> i \<and> strLess (start a) (isoString endDate)
                                                \<and> strLess (isoString startDate) (end' a)) docs
                          then (Inl SlotBusy, docs)
                          else findByIdAndUpdate docs i
                                 (updateData\<lparr>upd_end := Some (isoString endDate)\<rparr>))))))"

subsection \<open>Derived quantities used in the statements\<close>

text \<open>
  The window of a day as absolute instants: \<^verbatim>\<open>startMs\<close> and \<^verbatim>\<open>endMs\<close> of
  \<^verbatim>\<open>generateSlots\<close>, \<^verbatim>\<open>dayStart\<close> and \<^verbatim>\<open>dayEnd\<close> of create and update.
  \<open>slotCount\<close> is the number of turns the slot loop takes.
\<close>

definition slotCount :: "int \<Rightarrow> int \<Rightarrow> int \<Rightarrow> int \<Rightarrow> nat" where
  "slotCount t endMs slotMinutes durationMinutes =
     nat ((endMs - durationMinutes * 60000 - t) div (slotMinutes * 60000) + 1)"

definition windowStartMs :: "(int \<Rightarrow> int) \<Rightarrow> int \<Rightarrow> int option \<Rightarrow> int" where
  "windowStartMs tza dateUtc tzOffsetMinutes =
     localMidnightUtcMs dateUtc ((case tzOffsetMinutes of Some m \<Rightarrow> m | None \<Rightarrow> 0) * 60000)
       + startHour (getWorkingHours tza dateUtc tzOffsetMinutes) * 60 * 60000"

definition windowEndMs :: "(int \<Rightarrow> int) \<Rightarrow> int \<Rightarrow> int option \<Rightarrow> int" where
  "windowEndMs tza dateUtc tzOffsetMinutes =
     localMidnightUtcMs dateUtc ((case tzOffsetMinutes of Some m \<Rightarrow> m | None \<Rightarrow> 0) * 60000)
       + endHour (getWorkingHours tza dateUtc tzOffsetMinutes) * 60 * 60000"

text \<open>
  The working window as the specification words it (its sections 4.1, 4.2 and 4.5), to
  compare with what the code resolves. The local calendar date of an instant is the date
  of the instant shifted back by the offset; Saturdays and Sundays have 09:00 to 13:00,
  the other days 09:00 to 18:00; \<open>dayStart\<close> and \<open>dayEnd\<close> are those hours of that local
  date, as absolute instants.
\<close>

definition specLocalDate :: "int \<Rightarrow> int \<Rightarrow> int" where
  "specLocalDate t tzMinutes = (t - tzMinutes * 60000) div 86400000"

definition specEndHour :: "int \<Rightarrow> int" where
  "specEndHour date = (if (date + 4) mod 7 = 0 \<or> (date + 4) mod 7 = 6 then 13 else 18)"

definition specDayStart :: "int \<Rightarrow> int \<Rightarrow> int" where
  "specDayStart t tzMinutes =
     specLocalDate t tzMinutes * 86400000 + tzMinutes * 60000 + 9 * 3600000"

definition specDayEnd :: "int \<Rightarrow> int \<Rightarrow> int" where
  "specDayEnd t tzMinutes =
     specLocalDate t tzMinutes * 86400000 + tzMinutes * 60000
       + specEndHour (specLocalDate t tzMinutes) * 3600000"

text \<open>
  A grid point is contained in a fetched appointment: the appointment is one the query of
  \<^verbatim>\<open>getBusyIntervalsISO\<close> returns for the local day that begins at \<open>dayStart\<close> (its
  start string is below the ISO string of the day's last millisecond and its end string
  above that of \<open>dayStart\<close>), and the instants \<open>s\<close> and \<open>e\<close> of its start and end have
  \<open>s \<le> x < e\<close>.
\<close>

definition containedInFetched ::
  "(string \<Rightarrow> int option) \<Rightarrow> Appointment list \<Rightarrow> int \<Rightarrow> int \<Rightarrow> bool" where
  "containedInFetched P docs dayStart x =
     (\<exists>a\<in>set docs. strLess (start a) (isoString (dayStart + 86399999))
        \<and> strLess (isoString dayStart) (end' a)
        \<and> (case newDate P (start a) of
              Some s \<Rightarrow> (case newDate P (end' a) of Some e \<Rightarrow> s \<le> x \<and> x < e | None \<Rightarrow> False)
            | None \<Rightarrow> False))"

section \<open>The slot generator\<close>

lemma slotLoop_closed_aux:
  assumes step: "0 < step"
  shows "n = nat ((m - t) div step + 1) \<Longrightarrow> step = slotMinutes * 60000 \<Longrightarrow> m = endMs - durationMinutes * 60000 \<Longrightarrow>
     slotLoop t endMs slotMinutes durationMinutes slots
       = Some (slots @ map (\<lambda>k. t + int k * step) [0..<n])"
proof (induction n arbitrary: t slots)
  case 0
  then have "(m - t) div step < 0" by simp
  then have "m - t < 0" using step by (simp add: pos_imp_zdiv_neg_iff)
  then have "\<not> t + durationMinutes * 60000 \<le> endMs" using 0 by simp
  then show ?case by (subst slotLoop.simps) simp
next
  case (Suc n)
  then have "0 \<le> (m - t) div step" by simp
  then have ge: "0 \<le> m - t" using step by (simp add: pos_imp_zdiv_nonneg_iff)
  then have c: "t + durationMinutes * 60000 \<le> endMs" using Suc by simp
  have "(m - (t + step)) div step = (m - t) div step - 1"
    using step div_add_self2[of step "m - t - step"] by (simp add: algebra_simps)
  then have n: "n = nat ((m - (t + step)) div step + 1)" using Suc.prems(1) by simp
  have ih: "slotLoop (t + step) endMs slotMinutes durationMinutes (slots @ [t])
       = Some ((slots @ [t]) @ map (\<lambda>k. (t + step) + int k * step) [0..<n])"
    by (rule Suc.IH[OF n Suc.prems(2) Suc.prems(3)])
  have shift: "map (\<lambda>k. t + int k * step) [0..<Suc n] = t # map (\<lambda>k. (t + step) + int k * step) [0..<n]"
    by (simp add: upt_conv_Cons map_Suc_upt[symmetric] algebra_simps del: upt_Suc)
  have "slotLoop t endMs slotMinutes durationMinutes slots
       = slotLoop (t + step) endMs slotMinutes durationMinutes (slots @ [t])"
    using c Suc.prems(2) by (subst slotLoop.simps) simp
  then show ?case using ih shift by simp
qed

lemma slotLoop_closed:
  assumes "0 < slotMinutes"
  shows "slotLoop t endMs slotMinutes durationMinutes [] =
     Some (map (\<lambda>k. t + int k * (slotMinutes * 60000)) [0..<slotCount t endMs slotMinutes durationMinutes])"
  using slotLoop_closed_aux[of "slotMinutes * 60000" "slotCount t endMs slotMinutes durationMinutes"
      "endMs - durationMinutes * 60000" t slotMinutes endMs durationMinutes "[]"] assms
  by (simp add: slotCount_def)

lemma int_le_div_iff:
  fixes a b k :: int
  assumes "0 < b"
  shows "(k \<le> a div b) = (k * b \<le> a)"
proof -
  have "(a - k * b) div b = a div b - k"
    using assms div_mult_self1[of b "a" "- k"] by (simp add: algebra_simps)
  then show ?thesis
    using pos_imp_zdiv_nonneg_iff[OF assms, of "a - k * b"] by simp
qed

lemma slotCount_iff:
  assumes "0 < slotMinutes"
  shows "(k < slotCount t endMs slotMinutes durationMinutes)
     = (t + int k * (slotMinutes * 60000) + durationMinutes * 60000 \<le> endMs)"
proof -
  let ?step = "slotMinutes * 60000"
  let ?m = "endMs - durationMinutes * 60000"
  have s: "0 < ?step" using assms by simp
  have "(k < slotCount t endMs slotMinutes durationMinutes) = (int k \<le> (?m - t) div ?step)"
    by (auto simp: slotCount_def)
  also have "\<dots> = (int k * ?step \<le> ?m - t)"
    using int_le_div_iff[OF s] by simp
  finally show ?thesis by (simp add: algebra_simps)
qed

lemma generateSlots_loop:
  "generateSlots tza dateUtc slotMinutes durationMinutes tz =
     slotLoop (windowStartMs tza dateUtc tz) (windowEndMs tza dateUtc tz) slotMinutes durationMinutes []"
  by (simp add: generateSlots_def windowStartMs_def windowEndMs_def Let_def)

lemma grid_mem:
  assumes "0 < slotMinutes"
  shows "(t \<in> set (map (\<lambda>k. ws + int k * (slotMinutes * 60000)) [0..<slotCount ws we slotMinutes d])) =
            (\<exists>k::nat. t = ws + int k * (slotMinutes * 60000) \<and> t + d * 60000 \<le> we)"
proof
  assume "t \<in> set (map (\<lambda>k. ws + int k * (slotMinutes * 60000)) [0..<slotCount ws we slotMinutes d])"
  then obtain k where k: "k < slotCount ws we slotMinutes d" "t = ws + int k * (slotMinutes * 60000)"
    by auto
  then have "t + d * 60000 \<le> we" using slotCount_iff[OF assms, of k ws we d] by simp
  then show "\<exists>k::nat. t = ws + int k * (slotMinutes * 60000) \<and> t + d * 60000 \<le> we"
    using k(2) by blast
next
  assume "\<exists>k::nat. t = ws + int k * (slotMinutes * 60000) \<and> t + d * 60000 \<le> we"
  then obtain k :: nat where k: "t = ws + int k * (slotMinutes * 60000)" "t + d * 60000 \<le> we"
    by blast
  then have "k < slotCount ws we slotMinutes d" using slotCount_iff[OF assms, of k ws we d] by simp
  then show "t \<in> set (map (\<lambda>k. ws + int k * (slotMinutes * 60000)) [0..<slotCount ws we slotMinutes d])"
    using k(1) by auto
qed




lemma generateSlots_saturday_example:
  "generateSlots (\<lambda>_. 0) (isoUTC 2024 6 15 0 0) 15 45 (Some 0) =
     Some (map (\<lambda>k. isoUTC 2024 6 15 9 0 + k * 900000) [0 .. 13])"
  by code_simp

section \<open>The store, create, update and delete\<close>

lemma findById_None_iff: "(findById docs i = None) = (i \<notin> ident ` set docs)"
  by (auto simp: findById_def find_None_iff)

lemma findById_setById:
  "findById docs i = Some a \<Longrightarrow> findById (setById i u docs) i = Some (applySet u a)"
  by (induction docs) (auto simp: findById_def applySet_def split: if_splits)

lemma findByIdAndUpdate_found:
  "findById docs i = Some a \<Longrightarrow>
     findByIdAndUpdate docs i u = (Inr (applySet u a), setById i u docs)"
  by (simp add: findByIdAndUpdate_def findById_setById)

lemma newDate_valid: "newDate P st = Some s \<Longrightarrow> validDate s"
  by (auto simp: newDate_def split: option.splits if_splits)

lemma createAppointment_valid:
  assumes "body_name body = Some nm" "nm \<noteq> []" "body_phoneNumber body = Some ph" "ph \<noteq> []"
    "body_service body = Some svc" "body_start body = Some st" "st \<noteq> []" "newDate P st = Some s"
  shows "createAppointment P tza docs body =
     (if \<not> validDate (s - finiteOrZero (body_tzOffset body) * 60000) then (Inl RangeError, docs)
      else if dateLess s (windowStartMs tza s (Some (finiteOrZero (body_tzOffset body))))
         \<or> dateLess (windowEndMs tza s (Some (finiteOrZero (body_tzOffset body))))
              (s + SERVICE_DURATION_MINUTES svc * 60000)
      then (Inl OutOfWindow, docs)
      else if \<not> validDate (s + SERVICE_DURATION_MINUTES svc * 60000) then (Inl RangeError, docs)
      else if list_ex (\<lambda>a. strLess (start a) (isoString (s + SERVICE_DURATION_MINUTES svc * 60000))
                          \<and> strLess (isoString s) (end' a)) docs
      then (Inl SlotBusy, docs)
      else (Inr \<lparr>ident = newId docs, name = nm, phoneNumber = ph, service = svc,
                  start = isoString s, end' = isoString (s + SERVICE_DURATION_MINUTES svc * 60000)\<rparr>,
            docs @ [\<lparr>ident = newId docs, name = nm, phoneNumber = ph, service = svc,
                  start = isoString s, end' = isoString (s + SERVICE_DURATION_MINUTES svc * 60000)\<rparr>]))"
  using assms by (simp add: createAppointment_def falsy_def Let_def windowStartMs_def windowEndMs_def)

lemma updateAppointment_start:
  assumes "findById docs i = Some appt" "upd_start u = Some st" "st \<noteq> []" "newDate P st = Some s"
  shows "updateAppointment P tza docs i u =
     (let svc = (case upd_service u of Some v \<Rightarrow> v | None \<Rightarrow> service appt);
          e = s + SERVICE_DURATION_MINUTES svc * 60000
      in if \<not> validDate (s - finiteOrZero (upd_tzOffset u) * 60000) then (Inl RangeError, docs)
         else if dateLess s (windowStartMs tza s (Some (finiteOrZero (upd_tzOffset u))))
            \<or> dateLess (windowEndMs tza s (Some (finiteOrZero (upd_tzOffset u)))) e
         then (Inl OutOfWindow, docs)
         else if \<not> validDate e then (Inl RangeError, docs)
         else if list_ex (\<lambda>a. ident a \<noteq> i \<and> strLess (start a) (isoString e)
                             \<and> strLess (isoString s) (end' a)) docs
         then (Inl SlotBusy, docs)
         else (Inr (applySet (u\<lparr>upd_end := Some (isoString e)\<rparr>) appt),
               setById i (u\<lparr>upd_end := Some (isoString e)\<rparr>) docs))"
  using assms
  by (simp add: updateAppointment_def falsy_def Let_def windowStartMs_def windowEndMs_def
        findByIdAndUpdate_found)

lemma updateAppointment_nostart:
  assumes "findById docs i = Some appt" "upd_start u = None"
  shows "updateAppointment P tza docs i u = (Inr (applySet u appt), setById i u docs)"
  using assms by (simp add: updateAppointment_def falsy_def findByIdAndUpdate_found)

lemma createAppointment_cases:
  "(\<exists>e. createAppointment P tza docs body = (Inl e, docs))
     \<or> (\<exists>doc. createAppointment P tza docs body = (Inr doc, docs @ [doc]))"
  by (auto simp: createAppointment_def Let_def split: option.splits)

lemma window_length:
  "windowEndMs tza t tz - windowStartMs tza t tz = 4 * 3600000
     \<or> windowEndMs tza t tz - windowStartMs tza t tz = 9 * 3600000"
  by (simp add: windowStartMs_def windowEndMs_def getWorkingHours_def Let_def)


lemma list_ex_set: "list_ex Q xs = (\<exists>a\<in>set xs. Q a)"
  by (simp add: list_ex_iff)

text \<open>
  Claim C9. An update or a delete whose id matches no stored appointment fails with
  \<open>NotFound\<close> (the exception with the message \<^verbatim>\<open>Appointment not found\<close>), and the store
  is returned as it was: no appointment is modified or removed.
\<close>

theorem unknown_id_NotFound:
  assumes "i \<notin> ident ` set docs"
  shows "updateAppointment P tza docs i u = (Inl NotFound, docs)
       \<and> deleteAppointment docs i = (Inl NotFound, docs)"
proof -
  have "findById docs i = None" using assms by (simp add: findById_None_iff)
  then show ?thesis by (simp add: updateAppointment_def deleteAppointment_def)
qed

theorem unknown_id_NotFound_witness:
  "(2::nat) \<notin> ident ` set [\<lparr>ident = 1, name = ''Ann'', phoneNumber = ''091'', service = treatment,
              start = ''2024-06-10T09:00:00.000Z'', end' = ''2024-06-10T09:45:00.000Z''\<rparr>]
   \<and> updateAppointment (map_of [(''2024-06-10T10:00:00.000Z'', isoUTC 2024 6 10 10 0)]) (\<lambda>_. 0)
        [\<lparr>ident = 1, name = ''Ann'', phoneNumber = ''091'', service = treatment,
              start = ''2024-06-10T09:00:00.000Z'', end' = ''2024-06-10T09:45:00.000Z''\<rparr>] 2
        \<lparr>upd_name = Some ''Eve'', upd_phoneNumber = None, upd_service = None,
         upd_start = Some ''2024-06-10T10:00:00.000Z'', upd_tzOffset = None, upd_end = None\<rparr>
      = (Inl NotFound, [\<lparr>ident = 1, name = ''Ann'', phoneNumber = ''091'', service = treatment,
              start = ''2024-06-10T09:00:00.000Z'', end' = ''2024-06-10T09:45:00.000Z''\<rparr>])
   \<and> deleteAppointment
        [\<lparr>ident = 1, name = ''Ann'', phoneNumber = ''091'', service = treatment,
              start = ''2024-06-10T09:00:00.000Z'', end' = ''2024-06-10T09:45:00.000Z''\<rparr>] 2
      = (Inl NotFound, [\<lparr>ident = 1, name = ''Ann'', phoneNumber = ''091'', service = treatment,
              start = ''2024-06-10T09:00:00.000Z'', end' = ''2024-06-10T09:45:00.000Z''\<rparr>])"
proof -
  have h: "(2::nat) \<notin> ident ` set [\<lparr>ident = 1, name = ''Ann'', phoneNumber = ''091'', service = treatment,
              start = ''2024-06-10T09:00:00.000Z'', end' = ''2024-06-10T09:45:00.000Z''\<rparr>]"
    by simp
  show ?thesis using h unknown_id_NotFound[OF h] by blast
qed

text \<open>
  Claim C10. A create request that fails (a missing name, phone number, service or start,
  an unparseable start, a booking outside the working window, or an overlap with a stored
  appointment, which the store tests on the strings) fails with the store as it was before
  the call; and whenever \<^verbatim>\<open>createAppointment\<close> throws, whatever the reason, the store is
  unchanged. The bounds of the window are compared as Dates, so they are taken to be valid
  Dates where the failure is a booking outside them (lemma \<open>edge_of_range_accepted\<close> below
  shows what happens otherwise).
\<close>

theorem create_failure_no_write:
  "((falsy (body_name body) \<or> falsy (body_phoneNumber body) \<or> body_service body = None
       \<or> falsy (body_start body)
       \<or> (\<exists>st. body_start body = Some st \<and> newDate P st = None)
       \<or> (\<exists>st s svc. body_start body = Some st \<and> newDate P st = Some s
             \<and> body_service body = Some svc
             \<and> ((validDate (windowStartMs tza s (Some (finiteOrZero (body_tzOffset body))))
                   \<and> validDate (windowEndMs tza s (Some (finiteOrZero (body_tzOffset body))))
                   \<and> (s < windowStartMs tza s (Some (finiteOrZero (body_tzOffset body)))
                        \<or> s + SERVICE_DURATION_MINUTES svc * 60000
                             > windowEndMs tza s (Some (finiteOrZero (body_tzOffset body)))))
                  \<or> (\<exists>a\<in>set docs.
                        strLess (start a) (isoString (s + SERVICE_DURATION_MINUTES svc * 60000))
                        \<and> strLess (isoString s) (end' a)))))
      \<longrightarrow> (\<exists>e. createAppointment P tza docs body = (Inl e, docs)))
   \<and> (\<forall>e docs'. createAppointment P tza docs body = (Inl e, docs') \<longrightarrow> docs' = docs)"
proof (intro conjI impI allI)
  fix e docs' assume "createAppointment P tza docs body = (Inl e, docs')"
  then show "docs' = docs" using createAppointment_cases[of P tza docs body] by auto
next
  assume bad: "falsy (body_name body) \<or> falsy (body_phoneNumber body) \<or> body_service body = None
       \<or> falsy (body_start body)
       \<or> (\<exists>st. body_start body = Some st \<and> newDate P st = None)
       \<or> (\<exists>st s svc. body_start body = Some st \<and> newDate P st = Some s
             \<and> body_service body = Some svc
             \<and> ((validDate (windowStartMs tza s (Some (finiteOrZero (body_tzOffset body))))
                   \<and> validDate (windowEndMs tza s (Some (finiteOrZero (body_tzOffset body))))
                   \<and> (s < windowStartMs tza s (Some (finiteOrZero (body_tzOffset body)))
                        \<or> s + SERVICE_DURATION_MINUTES svc * 60000
                             > windowEndMs tza s (Some (finiteOrZero (body_tzOffset body)))))
                  \<or> (\<exists>a\<in>set docs.
                        strLess (start a) (isoString (s + SERVICE_DURATION_MINUTES svc * 60000))
                        \<and> strLess (isoString s) (end' a))))"
  show "\<exists>e. createAppointment P tza docs body = (Inl e, docs)"
  proof (cases "falsy (body_name body) \<or> falsy (body_phoneNumber body) \<or> body_service body = None
       \<or> falsy (body_start body)")
    case True
    then show ?thesis by (simp add: createAppointment_def)
  next
    case False
    then obtain nm ph svc st where f: "body_name body = Some nm" "nm \<noteq> []"
        "body_phoneNumber body = Some ph" "ph \<noteq> []" "body_service body = Some svc"
        "body_start body = Some st" "st \<noteq> []"
      by (auto simp: falsy_def)
    show ?thesis
    proof (cases "newDate P st")
      case None
      then show ?thesis using f by (simp add: createAppointment_def falsy_def)
    next
      case (Some s)
      let ?ws = "windowStartMs tza s (Some (finiteOrZero (body_tzOffset body)))"
      let ?we = "windowEndMs tza s (Some (finiteOrZero (body_tzOffset body)))"
      let ?e = "s + SERVICE_DURATION_MINUTES svc * 60000"
      from bad False Some f
      have c: "(validDate ?ws \<and> validDate ?we \<and> (s < ?ws \<or> ?e > ?we))
                  \<or> (\<exists>a\<in>set docs. strLess (start a) (isoString ?e) \<and> strLess (isoString s) (end' a))"
        by auto
      have vs: "validDate s" using Some by (rule newDate_valid)
      note eq = createAppointment_valid[OF f Some, of tza docs]
      show ?thesis
      proof (cases "\<not> validDate (s - finiteOrZero (body_tzOffset body) * 60000)
                     \<or> dateLess s ?ws \<or> dateLess ?we ?e \<or> \<not> validDate ?e")
        case True
        then show ?thesis unfolding eq by auto
      next
        case False
        then have n: "validDate ?e" "\<not> dateLess s ?ws" "\<not> dateLess ?we ?e" by auto
        have "\<not> (validDate ?ws \<and> validDate ?we \<and> (s < ?ws \<or> ?e > ?we))"
          using n vs by (auto simp: dateLess_def)
        then have "\<exists>a\<in>set docs. strLess (start a) (isoString ?e) \<and> strLess (isoString s) (end' a)"
          using c by blast
        then show ?thesis unfolding eq using False by (auto simp: list_ex_set)
      qed
    qed
  qed
qed

theorem create_failure_no_write_witness:
  "(\<exists>a\<in>set [\<lparr>ident = 1, name = ''Ann'', phoneNumber = ''091'', service = treatment,
              start = ''2024-06-10T09:00:00.000Z'', end' = ''2024-06-10T09:45:00.000Z''\<rparr>].
        strLess (start a) (isoString (isoUTC 2024 6 10 9 15 + SERVICE_DURATION_MINUTES consultation * 60000))
          \<and> strLess (isoString (isoUTC 2024 6 10 9 15)) (end' a))
   \<and> createAppointment (map_of [(''2024-06-10T09:15:00.000Z'', isoUTC 2024 6 10 9 15)]) (\<lambda>_. 0)
        [\<lparr>ident = 1, name = ''Ann'', phoneNumber = ''091'', service = treatment,
              start = ''2024-06-10T09:00:00.000Z'', end' = ''2024-06-10T09:45:00.000Z''\<rparr>]
        \<lparr>body_name = Some ''Bob'', body_phoneNumber = Some ''092'', body_service = Some consultation,
         body_start = Some ''2024-06-10T09:15:00.000Z'', body_tzOffset = Some 0\<rparr>
      = (Inl SlotBusy, [\<lparr>ident = 1, name = ''Ann'', phoneNumber = ''091'', service = treatment,
              start = ''2024-06-10T09:00:00.000Z'', end' = ''2024-06-10T09:45:00.000Z''\<rparr>])"
proof -
  let ?P = "map_of [(''2024-06-10T09:15:00.000Z'', isoUTC 2024 6 10 9 15)]"
  let ?A = "\<lparr>ident = 1, name = ''Ann'', phoneNumber = ''091'', service = treatment,
              start = ''2024-06-10T09:00:00.000Z'', end' = ''2024-06-10T09:45:00.000Z''\<rparr>"
  let ?B = "\<lparr>body_name = Some ''Bob'', body_phoneNumber = Some ''092'', body_service = Some consultation,
         body_start = Some ''2024-06-10T09:15:00.000Z'', body_tzOffset = Some 0\<rparr>"
  have ov: "\<exists>a\<in>set [?A].
        strLess (start a) (isoString (isoUTC 2024 6 10 9 15 + SERVICE_DURATION_MINUTES consultation * 60000))
          \<and> strLess (isoString (isoUTC 2024 6 10 9 15)) (end' a)"
    by code_simp
  have p: "body_start ?B = Some ''2024-06-10T09:15:00.000Z''
      \<and> newDate ?P ''2024-06-10T09:15:00.000Z'' = Some (isoUTC 2024 6 10 9 15)
      \<and> body_service ?B = Some consultation"
    by code_simp
  have "\<exists>st s svc. body_start ?B = Some st \<and> newDate ?P st = Some s
             \<and> body_service ?B = Some svc
             \<and> ((validDate (windowStartMs (\<lambda>_. 0) s (Some (finiteOrZero (body_tzOffset ?B))))
                   \<and> validDate (windowEndMs (\<lambda>_. 0) s (Some (finiteOrZero (body_tzOffset ?B))))
                   \<and> (s < windowStartMs (\<lambda>_. 0) s (Some (finiteOrZero (body_tzOffset ?B)))
                        \<or> s + SERVICE_DURATION_MINUTES svc * 60000
                             > windowEndMs (\<lambda>_. 0) s (Some (finiteOrZero (body_tzOffset ?B)))))
                  \<or> (\<exists>a\<in>set [?A].
                        strLess (start a) (isoString (s + SERVICE_DURATION_MINUTES svc * 60000))
                        \<and> strLess (isoString s) (end' a)))"
    using ov p by blast
  then have "\<exists>e. createAppointment ?P (\<lambda>_. 0) [?A] ?B = (Inl e, [?A])"
    using create_failure_no_write[of ?B ?P "\<lambda>_. 0" "[?A]"] by blast
  moreover have "fst (createAppointment ?P (\<lambda>_. 0) [?A] ?B) = Inl SlotBusy"
    by code_simp
  ultimately have "createAppointment ?P (\<lambda>_. 0) [?A] ?B = (Inl SlotBusy, [?A])"
    by auto
  then show ?thesis using ov by blast
qed





text \<open>
  The order of strings is the order of instants between two ISO strings of the form
  \<^verbatim>\<open>toISOString()\<close> prints, and not in general. An update stores the start string as it
  was sent: after an update to \<^verbatim>\<open>2024-06-10T11:00:00+02:00\<close>, which is 09:00Z, the
  appointment occupies 09:00Z to 09:45Z, and a create for 09:00Z is accepted all the same.
\<close>

lemma raw_start_double_booking:
  "updateAppointment
      (map_of [(''2024-06-10T11:00:00+02:00'', isoUTC 2024 6 10 9 0),
               (''2024-06-10T09:00:00.000Z'', isoUTC 2024 6 10 9 0)])
      (\<lambda>_. 0)
      [\<lparr>ident = 1, name = ''Ann'', phoneNumber = ''091'', service = treatment,
        start = ''2024-06-10T10:00:00.000Z'', end' = ''2024-06-10T10:45:00.000Z''\<rparr>] 1
      \<lparr>upd_name = None, upd_phoneNumber = None, upd_service = None,
       upd_start = Some ''2024-06-10T11:00:00+02:00'', upd_tzOffset = Some 0, upd_end = None\<rparr>
     = (Inr \<lparr>ident = 1, name = ''Ann'', phoneNumber = ''091'', service = treatment,
              start = ''2024-06-10T11:00:00+02:00'', end' = ''2024-06-10T09:45:00.000Z''\<rparr>,
        [\<lparr>ident = 1, name = ''Ann'', phoneNumber = ''091'', service = treatment,
              start = ''2024-06-10T11:00:00+02:00'', end' = ''2024-06-10T09:45:00.000Z''\<rparr>])
   \<and> createAppointment
      (map_of [(''2024-06-10T11:00:00+02:00'', isoUTC 2024 6 10 9 0),
               (''2024-06-10T09:00:00.000Z'', isoUTC 2024 6 10 9 0)])
      (\<lambda>_. 0)
      [\<lparr>ident = 1, name = ''Ann'', phoneNumber = ''091'', service = treatment,
              start = ''2024-06-10T11:00:00+02:00'', end' = ''2024-06-10T09:45:00.000Z''\<rparr>]
      \<lparr>body_name = Some ''Bob'', body_phoneNumber = Some ''092'', body_service = Some consultation,
       body_start = Some ''2024-06-10T09:00:00.000Z'', body_tzOffset = Some 0\<rparr>
     = (Inr \<lparr>ident = 2, name = ''Bob'', phoneNumber = ''092'', service = consultation,
              start = ''2024-06-10T09:00:00.000Z'', end' = ''2024-06-10T09:15:00.000Z''\<rparr>,
        [\<lparr>ident = 1, name = ''Ann'', phoneNumber = ''091'', service = treatment,
              start = ''2024-06-10T11:00:00+02:00'', end' = ''2024-06-10T09:45:00.000Z''\<rparr>,
         \<lparr>ident = 2, name = ''Bob'', phoneNumber = ''092'', service = consultation,
              start = ''2024-06-10T09:00:00.000Z'', end' = ''2024-06-10T09:15:00.000Z''\<rparr>])"
  by code_simp


lemma applySet_fields:
  "start (applySet u a) = (case upd_start u of Some v \<Rightarrow> v | None \<Rightarrow> start a)"
  "end' (applySet u a) = (case upd_end u of Some v \<Rightarrow> v | None \<Rightarrow> end' a)"
  "service (applySet u a) = (case upd_service u of Some v \<Rightarrow> v | None \<Rightarrow> service a)"
  by (simp_all add: applySet_def)

lemma create_end:
  assumes "createAppointment P tza docs body = (Inr a, docs')"
  shows "docs' = docs @ [a]
       \<and> (\<exists>st s. body_start body = Some st \<and> newDate P st = Some s \<and> start a = isoString s
             \<and> end' a = isoString (s + SERVICE_DURATION_MINUTES (service a) * 60000))"
  using assms
  by (auto simp: createAppointment_def Let_def split: option.splits if_splits)

lemma update_start_end:
  assumes "updateAppointment P tza docs i u = (Inr b, docs2)" "upd_start u = Some st" "st \<noteq> []"
    "newDate P st = Some s"
  shows "findById docs2 i = Some b \<and> start b = st
       \<and> end' b = isoString (s + SERVICE_DURATION_MINUTES (service b) * 60000)"
proof (cases "findById docs i")
  case None
  then show ?thesis using assms by (simp add: updateAppointment_def)
next
  case (Some appt)
  show ?thesis
    using assms(1) assms(2)
    by (auto simp: updateAppointment_start[OF Some assms(2) assms(3) assms(4)] Let_def
          findById_setById[OF Some] applySet_fields split: if_splits)
qed

lemma update_nostart_end:
  assumes "updateAppointment P tza docs j v = (Inr c, docs3)" "upd_start v = None"
    "findById docs j = Some old"
  shows "findById docs3 j = Some c \<and> start c = start old
       \<and> end' c = (case upd_end v of Some e \<Rightarrow> e | None \<Rightarrow> end' old)
       \<and> service c = (case upd_service v of Some w \<Rightarrow> w | None \<Rightarrow> service old)"
  using assms(1) assms(2)
  by (auto simp: updateAppointment_nostart[OF assms(3) assms(2)] findById_setById[OF assms(3)]
        applySet_fields)

text \<open>
  Claim C2, as amended. An appointment persisted by create has the ISO strings of its start
  and of \<open>start + duration(service)\<close> as its \<^verbatim>\<open>start\<close> and \<^verbatim>\<open>end\<close>. An update that
  supplies a start persists that start string and, as \<^verbatim>\<open>end\<close>, the ISO string of
  \<open>start + duration(service)\<close> for the service the appointment then has. An update
  without a start does not recompute the end: it keeps the stored start, takes the end sent
  in the request if there is one and the stored end otherwise, and takes the service sent
  in the request if there is one.
\<close>

theorem persisted_end:
  "(createAppointment P tza docs body = (Inr a, docs')
     \<longrightarrow> docs' = docs @ [a]
        \<and> (\<exists>st s. body_start body = Some st \<and> newDate P st = Some s \<and> start a = isoString s
              \<and> end' a = isoString (s + SERVICE_DURATION_MINUTES (service a) * 60000)))
   \<and> (updateAppointment P tza docs i u = (Inr b, docs2) \<and> upd_start u = Some st \<and> st \<noteq> []
        \<and> newDate P st = Some s
     \<longrightarrow> findById docs2 i = Some b \<and> start b = st
        \<and> end' b = isoString (s + SERVICE_DURATION_MINUTES (service b) * 60000))
   \<and> (updateAppointment P tza docs j v = (Inr c, docs3) \<and> upd_start v = None
        \<and> findById docs j = Some old
     \<longrightarrow> findById docs3 j = Some c \<and> start c = start old
        \<and> end' c = (case upd_end v of Some e \<Rightarrow> e | None \<Rightarrow> end' old)
        \<and> service c = (case upd_service v of Some w \<Rightarrow> w | None \<Rightarrow> service old))"
  using create_end[of P tza docs body a docs'] update_start_end[of P tza docs i u b docs2 st s]
    update_nostart_end[of P tza docs j v c docs3 old]
  by blast

text \<open>
  Claim C2 as stated fails: an appointment created as a 15-minute consultation and then
  updated with \<^verbatim>\<open>{service: 'treatment'}\<close> alone is stored as a treatment that still ends
  15 minutes after its start.
\<close>

theorem persisted_end_counterexample:
  "createAppointment (map_of [(''2024-06-10T09:00:00.000Z'', isoUTC 2024 6 10 9 0)]) (\<lambda>_. 0) []
      \<lparr>body_name = Some ''Ann'', body_phoneNumber = Some ''091'', body_service = Some consultation,
       body_start = Some ''2024-06-10T09:00:00.000Z'', body_tzOffset = Some 0\<rparr>
     = (Inr \<lparr>ident = 1, name = ''Ann'', phoneNumber = ''091'', service = consultation,
              start = ''2024-06-10T09:00:00.000Z'', end' = ''2024-06-10T09:15:00.000Z''\<rparr>,
        [\<lparr>ident = 1, name = ''Ann'', phoneNumber = ''091'', service = consultation,
              start = ''2024-06-10T09:00:00.000Z'', end' = ''2024-06-10T09:15:00.000Z''\<rparr>])
   \<and> updateAppointment (map_of [(''2024-06-10T09:00:00.000Z'', isoUTC 2024 6 10 9 0)]) (\<lambda>_. 0)
        [\<lparr>ident = 1, name = ''Ann'', phoneNumber = ''091'', service = consultation,
              start = ''2024-06-10T09:00:00.000Z'', end' = ''2024-06-10T09:15:00.000Z''\<rparr>] 1
        \<lparr>upd_name = None, upd_phoneNumber = None, upd_service = Some treatment,
         upd_start = None, upd_tzOffset = None, upd_end = None\<rparr>
     = (Inr \<lparr>ident = 1, name = ''Ann'', phoneNumber = ''091'', service = treatment,
              start = ''2024-06-10T09:00:00.000Z'', end' = ''2024-06-10T09:15:00.000Z''\<rparr>,
        [\<lparr>ident = 1, name = ''Ann'', phoneNumber = ''091'', service = treatment,
              start = ''2024-06-10T09:00:00.000Z'', end' = ''2024-06-10T09:15:00.000Z''\<rparr>])
   \<and> ''2024-06-10T09:15:00.000Z''
        \<noteq> isoString (isoUTC 2024 6 10 9 0 + SERVICE_DURATION_MINUTES treatment * 60000)
   \<and> isoString (isoUTC 2024 6 10 9 0 + SERVICE_DURATION_MINUTES treatment * 60000)
        = ''2024-06-10T09:45:00.000Z''"
  by code_simp

theorem persisted_end_witness:
  "createAppointment (map_of [(''2024-06-10T09:00:00.000Z'', isoUTC 2024 6 10 9 0),
                              (''2024-06-10T11:00:00.000Z'', isoUTC 2024 6 10 11 0)]) (\<lambda>_. 0) []
      \<lparr>body_name = Some ''Ann'', body_phoneNumber = Some ''091'', body_service = Some consultation,
       body_start = Some ''2024-06-10T09:00:00.000Z'', body_tzOffset = Some 0\<rparr>
     = (Inr \<lparr>ident = 1, name = ''Ann'', phoneNumber = ''091'', service = consultation,
              start = ''2024-06-10T09:00:00.000Z'', end' = ''2024-06-10T09:15:00.000Z''\<rparr>,
        [\<lparr>ident = 1, name = ''Ann'', phoneNumber = ''091'', service = consultation,
              start = ''2024-06-10T09:00:00.000Z'', end' = ''2024-06-10T09:15:00.000Z''\<rparr>])
   \<and> ''2024-06-10T09:15:00.000Z''
        = isoString (isoUTC 2024 6 10 9 0 + SERVICE_DURATION_MINUTES consultation * 60000)
   \<and> updateAppointment (map_of [(''2024-06-10T09:00:00.000Z'', isoUTC 2024 6 10 9 0),
                              (''2024-06-10T11:00:00.000Z'', isoUTC 2024 6 10 11 0)]) (\<lambda>_. 0)
        [\<lparr>ident = 1, name = ''Ann'', phoneNumber = ''091'', service = consultation,
              start = ''2024-06-10T09:00:00.000Z'', end' = ''2024-06-10T09:15:00.000Z''\<rparr>] 1
        \<lparr>upd_name = None, upd_phoneNumber = None, upd_service = Some treatment,
         upd_start = Some ''2024-06-10T11:00:00.000Z'', upd_tzOffset = None, upd_end = None\<rparr>
     = (Inr \<lparr>ident = 1, name = ''Ann'', phoneNumber = ''091'', service = treatment,
              start = ''2024-06-10T11:00:00.000Z'', end' = ''2024-06-10T11:45:00.000Z''\<rparr>,
        [\<lparr>ident = 1, name = ''Ann'', phoneNumber = ''091'', service = treatment,
              start = ''2024-06-10T11:00:00.000Z'', end' = ''2024-06-10T11:45:00.000Z''\<rparr>])
   \<and> ''2024-06-10T11:45:00.000Z''
        = isoString (isoUTC 2024 6 10 11 0 + SERVICE_DURATION_MINUTES treatment * 60000)
   \<and> updateAppointment (map_of [(''2024-06-10T09:00:00.000Z'', isoUTC 2024 6 10 9 0),
                              (''2024-06-10T11:00:00.000Z'', isoUTC 2024 6 10 11 0)]) (\<lambda>_. 0)
        [\<lparr>ident = 1, name = ''Ann'', phoneNumber = ''091'', service = consultation,
              start = ''2024-06-10T09:00:00.000Z'', end' = ''2024-06-10T09:15:00.000Z''\<rparr>] 1
        \<lparr>upd_name = None, upd_phoneNumber = None, upd_service = None,
         upd_start = None, upd_tzOffset = None, upd_end = Some ''2024-06-10T12:00:00.000Z''\<rparr>
     = (Inr \<lparr>ident = 1, name = ''Ann'', phoneNumber = ''091'', service = consultation,
              start = ''2024-06-10T09:00:00.000Z'', end' = ''2024-06-10T12:00:00.000Z''\<rparr>,
        [\<lparr>ident = 1, name = ''Ann'', phoneNumber = ''091'', service = consultation,
              start = ''2024-06-10T09:00:00.000Z'', end' = ''2024-06-10T12:00:00.000Z''\<rparr>])"
proof -
  let ?P = "map_of [(''2024-06-10T09:00:00.000Z'', isoUTC 2024 6 10 9 0),
                    (''2024-06-10T11:00:00.000Z'', isoUTC 2024 6 10 11 0)]"
  let ?B = "\<lparr>body_name = Some ''Ann'', body_phoneNumber = Some ''091'', body_service = Some consultation,
       body_start = Some ''2024-06-10T09:00:00.000Z'', body_tzOffset = Some 0\<rparr>"
  let ?A = "\<lparr>ident = 1, name = ''Ann'', phoneNumber = ''091'', service = consultation,
              start = ''2024-06-10T09:00:00.000Z'', end' = ''2024-06-10T09:15:00.000Z''\<rparr>"
  let ?U = "\<lparr>upd_name = None, upd_phoneNumber = None, upd_service = Some treatment,
         upd_start = Some ''2024-06-10T11:00:00.000Z'', upd_tzOffset = None, upd_end = None\<rparr>"
  let ?A1 = "\<lparr>ident = 1, name = ''Ann'', phoneNumber = ''091'', service = treatment,
              start = ''2024-06-10T11:00:00.000Z'', end' = ''2024-06-10T11:45:00.000Z''\<rparr>"
  let ?V = "\<lparr>upd_name = None, upd_phoneNumber = None, upd_service = None,
         upd_start = None, upd_tzOffset = None, upd_end = Some ''2024-06-10T12:00:00.000Z''\<rparr>"
  let ?A2 = "\<lparr>ident = 1, name = ''Ann'', phoneNumber = ''091'', service = consultation,
              start = ''2024-06-10T09:00:00.000Z'', end' = ''2024-06-10T12:00:00.000Z''\<rparr>"
  have c: "createAppointment ?P (\<lambda>_. 0) [] ?B = (Inr ?A, [?A])"
    by code_simp
  have u: "updateAppointment ?P (\<lambda>_. 0) [?A] 1 ?U = (Inr ?A1, [?A1])"
    by code_simp
  have v: "updateAppointment ?P (\<lambda>_. 0) [?A] 1 ?V = (Inr ?A2, [?A2])"
    by code_simp
  have f: "findById [?A] 1 = Some ?A" by code_simp
  have p: "upd_start ?U = Some ''2024-06-10T11:00:00.000Z'' \<and> ''2024-06-10T11:00:00.000Z'' \<noteq> []
      \<and> newDate ?P ''2024-06-10T11:00:00.000Z'' = Some (isoUTC 2024 6 10 11 0)"
    and q: "newDate ?P ''2024-06-10T09:00:00.000Z'' = Some (isoUTC 2024 6 10 9 0)"
    by code_simp+
  have e1: "\<exists>st s. body_start ?B = Some st \<and> newDate ?P st = Some s \<and> start ?A = isoString s
        \<and> end' ?A = isoString (s + SERVICE_DURATION_MINUTES (service ?A) * 60000)"
    using persisted_end[where P = ?P and tza = "\<lambda>_. 0" and docs = "[]" and body = ?B
        and a = ?A and docs' = "[?A]"] c
    by blast
  then have e1': "''2024-06-10T09:15:00.000Z''
        = isoString (isoUTC 2024 6 10 9 0 + SERVICE_DURATION_MINUTES consultation * 60000)"
    using q by auto
  have e2: "end' ?A1 = isoString (isoUTC 2024 6 10 11 0 + SERVICE_DURATION_MINUTES (service ?A1) * 60000)"
    using persisted_end[where P = ?P and tza = "\<lambda>_. 0" and docs = "[?A]" and i = 1 and u = ?U
        and b = ?A1 and ?docs2.0 = "[?A1]" and st = "''2024-06-10T11:00:00.000Z''"
        and s = "isoUTC 2024 6 10 11 0"] u p
    by blast
  then have e2': "''2024-06-10T11:45:00.000Z''
        = isoString (isoUTC 2024 6 10 11 0 + SERVICE_DURATION_MINUTES treatment * 60000)"
    by simp
  show ?thesis using c e1' u e2' v by (intro conjI)
qed

section \<open>The working window of a booking\<close>

lemma window_utc_host:
  assumes "\<not> (0 \<le> fst (civilFromDays (specLocalDate s off))
              \<and> fst (civilFromDays (specLocalDate s off)) \<le> 99)"
    and "validDate (s - off * 60000)"
    and "validDate (specLocalDate s off * 86400000 + 12 * 3600000)"
  shows "windowStartMs (\<lambda>_. 0) s (Some off) = specDayStart s off
       \<and> windowEndMs (\<lambda>_. 0) s (Some off) = specDayEnd s off"
  using assms
  by (auto simp: windowStartMs_def windowEndMs_def getWorkingHours_def localMidnightUtcMs_def
        isoYmd_def midnightUtc_def hostYmd_def getDay_def specDayStart_def specDayEnd_def
        specLocalDate_def specEndHour_def Let_def)

lemma duration_table:
  "SERVICE_DURATION_MINUTES svc
     = (case svc of consultation \<Rightarrow> 15 | treatment \<Rightarrow> 45 | extraction \<Rightarrow> 45 | prosthetics \<Rightarrow> 45)"
  by (cases svc) simp_all

lemma outOfWindow_iff_utc_host:
  assumes f: "body_name body = Some nm" "nm \<noteq> []" "body_phoneNumber body = Some ph" "ph \<noteq> []"
    "body_service body = Some svc" "body_start body = Some st" "st \<noteq> []" "newDate P st = Some s"
    and off: "off = (case body_tzOffset body of Some m \<Rightarrow> m | None \<Rightarrow> 0)"
    and e: "e = s + (case svc of consultation \<Rightarrow> 15 | treatment \<Rightarrow> 45 | extraction \<Rightarrow> 45
                     | prosthetics \<Rightarrow> 45) * 60000"
    and y: "\<not> (0 \<le> fst (civilFromDays (specLocalDate s off))
              \<and> fst (civilFromDays (specLocalDate s off)) \<le> 99)"
    and n: "validDate (specLocalDate s off * 86400000 + 12 * 3600000)"
    and v: "validDate (s - off * 60000)" "validDate (specDayStart s off)"
      "validDate (specDayEnd s off)" "validDate e"
  shows "(fst (createAppointment P (\<lambda>_. 0) docs body) = Inl OutOfWindow)
           = (s < specDayStart s off \<or> e > specDayEnd s off)"
proof -
  have o: "finiteOrZero (body_tzOffset body) = off" by (simp add: off finiteOrZero_def)
  have e': "s + SERVICE_DURATION_MINUTES svc * 60000 = e" by (simp only: e duration_table)
  have vs: "validDate s" using f(8) by (rule newDate_valid)
  show ?thesis
    using v vs window_utc_host[OF y v(1) n]
    by (simp add: createAppointment_valid[OF f] o e' dateLess_def)
qed

lemma outOfWindow_update_iff_utc_host:
  assumes f: "findById docs i = Some appt" "upd_start u = Some st" "st \<noteq> []" "newDate P st = Some s"
    and off: "off = (case upd_tzOffset u of Some m \<Rightarrow> m | None \<Rightarrow> 0)"
    and svc: "svc = (case upd_service u of Some w \<Rightarrow> w | None \<Rightarrow> service appt)"
    and e: "e = s + (case svc of consultation \<Rightarrow> 15 | treatment \<Rightarrow> 45 | extraction \<Rightarrow> 45
                     | prosthetics \<Rightarrow> 45) * 60000"
    and y: "\<not> (0 \<le> fst (civilFromDays (specLocalDate s off))
              \<and> fst (civilFromDays (specLocalDate s off)) \<le> 99)"
    and n: "validDate (specLocalDate s off * 86400000 + 12 * 3600000)"
    and v: "validDate (s - off * 60000)" "validDate (specDayStart s off)"
      "validDate (specDayEnd s off)" "validDate e"
  shows "(fst (updateAppointment P (\<lambda>_. 0) docs i u) = Inl OutOfWindow)
           = (s < specDayStart s off \<or> e > specDayEnd s off)"
proof -
  have o: "finiteOrZero (upd_tzOffset u) = off" by (simp add: off finiteOrZero_def)
  have e': "s + SERVICE_DURATION_MINUTES (case upd_service u of Some w \<Rightarrow> w | None \<Rightarrow> service appt) * 60000 = e"
    unfolding e svc[symmetric] by (simp only: duration_table)
  have vs: "validDate s" using f(4) by (rule newDate_valid)
  show ?thesis
    using v vs window_utc_host[OF y v(1) n]
    by (simp add: updateAppointment_start[OF f] o e' dateLess_def Let_def)
qed

text \<open>
  Claim C3. The claim is that a booking with a parseable start is rejected with
  \<open>OutOfWindow\<close> (the exception with the message \<^verbatim>\<open>Outside working hours\<close>) if and only
  if \<open>start < dayStart\<close> or \<open>start + duration(service) > dayEnd\<close>, for the working window
  of the day of the start: 09:00 to 18:00 of the client's local date from Monday to Friday
  and 09:00 to 13:00 on Saturday and Sunday (\<open>specDayStart\<close>, \<open>specDayEnd\<close>). On a host on
  UTC create and update do so, away from the ends of the range of \<^verbatim>\<open>Date\<close> (the two lemmas
  above). But the hours of the window come from \<^verbatim>\<open>getWorkingHours\<close>, which reads the day
  in the zone of the host (claim C4). On a host nine hours ahead of UTC, a 15-minute
  consultation at 2024-06-14T16:00:00.000Z with offset 0, on a Friday and inside 09:00 to
  18:00, is rejected with \<open>OutOfWindow\<close>: the host's clock shows Saturday 01:00, and the
  window is taken to end at 13:00. The same request is accepted on a host on UTC.
\<close>

theorem outOfWindow_host_zone:
  "createAppointment (map_of [(''2024-06-14T16:00:00.000Z'', isoUTC 2024 6 14 16 0)])
      (\<lambda>_. 9 * 3600000) []
      \<lparr>body_name = Some ''Ann'', body_phoneNumber = Some ''091'', body_service = Some consultation,
       body_start = Some ''2024-06-14T16:00:00.000Z'', body_tzOffset = Some 0\<rparr>
     = (Inl OutOfWindow, [])
   \<and> getDay (specLocalDate (isoUTC 2024 6 14 16 0) 0) = 5
   \<and> specDayStart (isoUTC 2024 6 14 16 0) 0 = isoUTC 2024 6 14 9 0
   \<and> specDayEnd (isoUTC 2024 6 14 16 0) 0 = isoUTC 2024 6 14 18 0
   \<and> isoUTC 2024 6 14 9 0 \<le> isoUTC 2024 6 14 16 0
   \<and> isoUTC 2024 6 14 16 0 + 15 * 60000 \<le> isoUTC 2024 6 14 18 0
   \<and> createAppointment (map_of [(''2024-06-14T16:00:00.000Z'', isoUTC 2024 6 14 16 0)])
      (\<lambda>_. 0) []
      \<lparr>body_name = Some ''Ann'', body_phoneNumber = Some ''091'', body_service = Some consultation,
       body_start = Some ''2024-06-14T16:00:00.000Z'', body_tzOffset = Some 0\<rparr>
     = (Inr \<lparr>ident = 1, name = ''Ann'', phoneNumber = ''091'', service = consultation,
              start = ''2024-06-14T16:00:00.000Z'', end' = ''2024-06-14T16:15:00.000Z''\<rparr>,
        [\<lparr>ident = 1, name = ''Ann'', phoneNumber = ''091'', service = consultation,
              start = ''2024-06-14T16:00:00.000Z'', end' = ''2024-06-14T16:15:00.000Z''\<rparr>])"
  by code_simp

text \<open>
  At the ends of the range of \<^verbatim>\<open>Date\<close> the comparisons with an invalid \<open>dayStart\<close> or
  \<open>dayEnd\<close> are false. A booking at the largest \<^verbatim>\<open>Date\<close> passes them and then throws
  \<^verbatim>\<open>RangeError\<close> when its end is printed; a booking one hour before the largest \<^verbatim>\<open>Date\<close>
  with offset 1200, which is 03:00 of the client's day, passes them and is persisted.
\<close>

lemma largest_date_RangeError:
  "createAppointment (map_of [(''+275760-09-13T00:00:00.000Z'', 8640000000000000)]) (\<lambda>_. 0) []
      \<lparr>body_name = Some ''Ann'', body_phoneNumber = Some ''091'', body_service = Some consultation,
       body_start = Some ''+275760-09-13T00:00:00.000Z'', body_tzOffset = Some 0\<rparr>
     = (Inl RangeError, [])"
  by code_simp

lemma edge_of_range_accepted:
  "localMidnightUtcMs (8640000000000000 - 3600000) (1200 * 60000) = 8640000000000000 - 4 * 3600000
   \<and> createAppointment (map_of [(''+275760-09-12T23:00:00.000Z'', 8640000000000000 - 3600000)]) (\<lambda>_. 0) []
      \<lparr>body_name = Some ''Ann'', body_phoneNumber = Some ''091'', body_service = Some consultation,
       body_start = Some ''+275760-09-12T23:00:00.000Z'', body_tzOffset = Some 1200\<rparr>
     = (Inr \<lparr>ident = 1, name = ''Ann'', phoneNumber = ''091'', service = consultation,
              start = ''+275760-09-12T23:00:00.000Z'', end' = ''+275760-09-12T23:15:00.000Z''\<rparr>,
        [\<lparr>ident = 1, name = ''Ann'', phoneNumber = ''091'', service = consultation,
              start = ''+275760-09-12T23:00:00.000Z'', end' = ''+275760-09-12T23:15:00.000Z''\<rparr>])"
  by code_simp

section \<open>Working hours\<close>

lemma getWorkingHours_utc_host:
  assumes "\<not> (0 \<le> fst (civilFromDays (isoYmd (t - (case tz of Some m \<Rightarrow> m | None \<Rightarrow> 0) * 60000)))
              \<and> fst (civilFromDays (isoYmd (t - (case tz of Some m \<Rightarrow> m | None \<Rightarrow> 0) * 60000))) \<le> 99)"
    and "validDate (t - (case tz of Some m \<Rightarrow> m | None \<Rightarrow> 0) * 60000)"
    and "validDate (isoYmd (t - (case tz of Some m \<Rightarrow> m | None \<Rightarrow> 0) * 60000) * 86400000 + 12 * 3600000)"
  shows "getWorkingHours (\<lambda>_. 0) t tz =
     (if getDay (isoYmd (t - (case tz of Some m \<Rightarrow> m | None \<Rightarrow> 0) * 60000)) = 0
         \<or> getDay (isoYmd (t - (case tz of Some m \<Rightarrow> m | None \<Rightarrow> 0) * 60000)) = 6
      then \<lparr>startHour = 9, endHour = 13\<rparr> else \<lparr>startHour = 9, endHour = 18\<rparr>)"
  using assms by (auto simp: getWorkingHours_def hostYmd_def isoYmd_def Let_def)

text \<open>
  Claim C4. The claim is that the window is 09:00 to 13:00 when the day of the week of the
  client's local calendar date (the date of \<open>dateUtc - offsetMs\<close>) is Saturday or Sunday
  and 09:00 to 18:00 otherwise, as a function of that date alone. \<^verbatim>\<open>getWorkingHours\<close>
  reads the date with \<^verbatim>\<open>getFullYear\<close>, \<^verbatim>\<open>getMonth\<close> and \<^verbatim>\<open>getDate\<close>, which work in
  the zone of the host, so the claim holds on a host on UTC (the lemma above) and fails
  elsewhere. On a host four hours behind UTC, Saturday 2024-06-15T00:00Z with offset 0 gets
  the weekday window. On a host four hours ahead of UTC, two instants of Friday 2024-06-14
  (12:00Z and 20:30Z, offset 0) get different windows.
\<close>

theorem getWorkingHours_host_zone:
  "getDay (isoYmd (isoUTC 2024 6 15 0 0 - 0 * 60000)) = 6
   \<and> getWorkingHours (\<lambda>_. - 4 * 3600000) (isoUTC 2024 6 15 0 0) (Some 0) = \<lparr>startHour = 9, endHour = 18\<rparr>
   \<and> isoYmd (isoUTC 2024 6 14 12 0 - 0 * 60000) = isoYmd (isoUTC 2024 6 14 20 30 - 0 * 60000)
   \<and> getWorkingHours (\<lambda>_. 4 * 3600000) (isoUTC 2024 6 14 12 0) (Some 0) = \<lparr>startHour = 9, endHour = 18\<rparr>
   \<and> getWorkingHours (\<lambda>_. 4 * 3600000) (isoUTC 2024 6 14 20 30) (Some 0) = \<lparr>startHour = 9, endHour = 13\<rparr>"
  by code_simp

section \<open>Availability\<close>

lemma set_setAdd: "set (setAdd x xs) = insert x (set xs)"
  by (auto simp: setAdd_def)

lemma set_mark_inner:
  "set (fold (\<lambda>t b. if Q t then setAdd t b else b) slots acc) = set acc \<union> {t \<in> set slots. Q t}"
  by (induction slots arbitrary: acc) (auto simp: set_setAdd)

lemma set_mark_outer:
  "set (fold (\<lambda>interval busy.
             fold (\<lambda>t b. if R interval t then setAdd t b else b) allSlots busy) ivs acc)
     = set acc \<union> {t \<in> set allSlots. \<exists>iv\<in>set ivs. R iv t}"
  by (induction ivs arbitrary: acc) (auto simp: set_mark_inner)

lemma set_markBusy:
  "set (markBusy P ivs allSlots)
     = {t \<in> set allSlots. \<exists>iv\<in>set ivs. inInterval (newDate P (fst iv)) (newDate P (snd iv)) t}"
  unfolding markBusy_def
  using set_mark_outer[of "\<lambda>iv t. inInterval (newDate P (fst iv)) (newDate P (snd iv)) t" allSlots ivs "[]"]
  by simp

lemma inInterval_case:
  "inInterval (newDate P (start a)) (newDate P (end' a)) x
     = (case newDate P (start a) of
          Some s \<Rightarrow> (case newDate P (end' a) of Some e \<Rightarrow> s \<le> x \<and> x < e | None \<Rightarrow> False)
        | None \<Rightarrow> False)"
  by (simp add: inInterval_def split: option.splits)

lemma set_getBusyIntervalsISO:
  assumes "getBusyIntervalsISO docs date (Some off) = Inr ivs"
  shows "set ivs
     = (\<lambda>a. (start a, end' a)) `
         {a \<in> set docs.
            strLess (start a) (isoString (localMidnightUtcMs date (off * 60000) + 86399999))
            \<and> strLess (isoString (localMidnightUtcMs date (off * 60000))) (end' a)}"
proof -
  have e: "localMidnightUtcMs date (off * 60000) + 24 * 60 * 60000 - 1
      = localMidnightUtcMs date (off * 60000) + 86399999"
    by simp
  show ?thesis
    using assms unfolding getBusyIntervalsISO_def Let_def option.case e
    by (auto split: if_splits)
qed

lemma fetched_iff:
  assumes "getBusyIntervalsISO docs date (Some off) = Inr ivs"
  shows "(\<exists>iv\<in>set ivs. inInterval (newDate P (fst iv)) (newDate P (snd iv)) x)
     = containedInFetched P docs (localMidnightUtcMs date (off * 60000)) x"
  apply (simp add: set_getBusyIntervalsISO[OF assms] containedInFetched_def inInterval_case conj_ac)
  apply blast
  done

lemma generateSlots_15:
  "generateSlots tza dateUtc 15 d tz =
     Some (map (\<lambda>k. windowStartMs tza dateUtc tz + int k * 900000)
            [0..<slotCount (windowStartMs tza dateUtc tz) (windowEndMs tza dateUtc tz) 15 d])"
  using slotLoop_closed[of 15 "windowStartMs tza dateUtc tz" "windowEndMs tza dateUtc tz" d]
  by (simp add: generateSlots_loop)

lemma chunksFree_iff:
  "chunksFree busy n m t = (\<forall>i. 0 \<le> i \<and> i < n \<longrightarrow> t + i * m * 60000 \<notin> set busy)"
  by (auto simp: chunksFree_def list_all_iff)

lemma chunk_on_grid:
  assumes t: "t \<in> set (map (\<lambda>k. ws + int k * 900000) [0..<slotCount ws we 15 d])"
    and i: "0 \<le> i" "i < c" and d: "c * 15 = d"
  shows "t + i * 15 * 60000 \<in> set (map (\<lambda>k. ws + int k * 900000) [0..<slotCount ws we 15 15])"
proof -
  from t obtain k :: nat where k: "t = ws + int k * (15 * 60000)" "t + d * 60000 \<le> we"
    using grid_mem[of 15 t ws we d] by auto
  have "t + i * 15 * 60000 = ws + int (k + nat i) * (15 * 60000)"
    using k(1) i(1) by (simp add: algebra_simps)
  moreover have "t + i * 15 * 60000 + 15 * 60000 \<le> we"
    using k(2) i d by auto
  ultimately have "\<exists>j::nat. t + i * 15 * 60000 = ws + int j * (15 * 60000)
      \<and> t + i * 15 * 60000 + 15 * 60000 \<le> we"
    by blast
  then show ?thesis using grid_mem[of 15 "t + i * 15 * 60000" ws we 15] by simp
qed

lemma chunks_of_duration:
  "max 1 (ceilDiv (case serviceOpt of Some s \<Rightarrow> SERVICE_DURATION_MINUTES s | None \<Rightarrow> 45) 15) * 15
     = (case serviceOpt of Some s \<Rightarrow> SERVICE_DURATION_MINUTES s | None \<Rightarrow> 45)"
proof (cases serviceOpt)
  case None
  then show ?thesis by (simp add: ceilDiv_def)
next
  case (Some s)
  then show ?thesis by (cases s) (simp_all add: ceilDiv_def)
qed


lemma getAvailabilityForDate_Inr:
  assumes r: "getAvailabilityForDate P tza nowMs docs dateStr serviceOpt tz = Some (Inr r)"
  shows "\<exists>date ivs. dateInstant dateStr = Some date
     \<and> getBusyIntervalsISO docs date (Some (finiteOrZero tz)) = Inr ivs
     \<and> workingSlots r
         = map (\<lambda>k. windowStartMs tza date (Some (finiteOrZero tz)) + int k * 900000)
             [0..<slotCount (windowStartMs tza date (Some (finiteOrZero tz)))
                    (windowEndMs tza date (Some (finiteOrZero tz))) 15 15]
     \<and> busySlots r = markBusy P ivs (workingSlots r)
     \<and> availableSlots r =
         (if equalsPrintedDate dateStr (isoYmd (nowMs + finiteOrZero tz * 60000))
          then filter (\<lambda>iso. iso > nowMs)
                 (filter (chunksFree (busySlots r)
                            (max 1 (ceilDiv (case serviceOpt of Some s \<Rightarrow> SERVICE_DURATION_MINUTES s | None \<Rightarrow> 45) 15)) 15)
                    (map (\<lambda>k. windowStartMs tza date (Some (finiteOrZero tz)) + int k * 900000)
                       [0..<slotCount (windowStartMs tza date (Some (finiteOrZero tz)))
                              (windowEndMs tza date (Some (finiteOrZero tz))) 15
                              (case serviceOpt of Some s \<Rightarrow> SERVICE_DURATION_MINUTES s | None \<Rightarrow> 45)]))
          else filter (chunksFree (busySlots r)
                            (max 1 (ceilDiv (case serviceOpt of Some s \<Rightarrow> SERVICE_DURATION_MINUTES s | None \<Rightarrow> 45) 15)) 15)
                    (map (\<lambda>k. windowStartMs tza date (Some (finiteOrZero tz)) + int k * 900000)
                       [0..<slotCount (windowStartMs tza date (Some (finiteOrZero tz)))
                              (windowEndMs tza date (Some (finiteOrZero tz))) 15
                              (case serviceOpt of Some s \<Rightarrow> SERVICE_DURATION_MINUTES s | None \<Rightarrow> 45)]))"
  using r unfolding getAvailabilityForDate_def Let_def generateSlots_15 toISOStrings_def
  by (auto split: if_splits option.splits sum.splits)

lemma chunksFree_on_starts:
  assumes t: "t \<in> set (map (\<lambda>k. ws + int k * 900000) [0..<slotCount ws we 15 d])"
    and d: "c * 15 = d"
  shows "chunksFree (markBusy P ivs (map (\<lambda>k. ws + int k * 900000) [0..<slotCount ws we 15 15])) c 15 t
     = (\<forall>i. 0 \<le> i \<and> i * 15 < d \<longrightarrow>
          \<not> (\<exists>iv\<in>set ivs. inInterval (newDate P (fst iv)) (newDate P (snd iv)) (t + i * 15 * 60000)))"
proof -
  have grid: "0 \<le> i \<Longrightarrow> i < c \<Longrightarrow>
      t + i * 15 * 60000 \<in> set (map (\<lambda>k. ws + int k * 900000) [0..<slotCount ws we 15 15])" for i
    using chunk_on_grid[OF t _ _ d] by blast
  have lt: "(i * 15 < d) = (i < c)" for i using d by auto
  show ?thesis
    unfolding chunksFree_iff set_markBusy lt using grid by blast
qed

lemma duration_of_service:
  "(case serviceOpt of Some s \<Rightarrow> SERVICE_DURATION_MINUTES s | None \<Rightarrow> 45)
     = (case serviceOpt of None \<Rightarrow> 45 | Some consultation \<Rightarrow> 15 | Some treatment \<Rightarrow> 45
        | Some extraction \<Rightarrow> 45 | Some prosthetics \<Rightarrow> 45)"
  by (simp split: option.split ServiceKey.split)

lemma free_starts:
  assumes iv: "getBusyIntervalsISO docs date (Some off) = Inr ivs"
    and d: "c * 15 = d"
  shows "filter (chunksFree (markBusy P ivs (map (\<lambda>k. ws + int k * 900000) [0..<slotCount ws we 15 15])) c 15)
           (map (\<lambda>k. ws + int k * 900000) [0..<slotCount ws we 15 d])
       = filter (\<lambda>t. \<forall>i. 0 \<le> i \<and> i * 15 < d \<longrightarrow>
                   \<not> containedInFetched P docs (localMidnightUtcMs date (off * 60000)) (t + i * 15 * 60000))
           (map (\<lambda>k. ws + int k * 900000) [0..<slotCount ws we 15 d])"
proof (rule filter_cong[OF refl])
  fix t assume t: "t \<in> set (map (\<lambda>k. ws + int k * 900000) [0..<slotCount ws we 15 d])"
  show "chunksFree (markBusy P ivs (map (\<lambda>k. ws + int k * 900000) [0..<slotCount ws we 15 15])) c 15 t
      = (\<forall>i. 0 \<le> i \<and> i * 15 < d \<longrightarrow>
           \<not> containedInFetched P docs (localMidnightUtcMs date (off * 60000)) (t + i * 15 * 60000))"
    unfolding chunksFree_on_starts[OF t d] fetched_iff[OF iv] ..
qed

text \<open>
  What a query that answers returns, with the test for today as the code makes it.
\<close>

lemma availability_answer:
  assumes r: "getAvailabilityForDate P tza nowMs docs dateStr serviceOpt tz = Some (Inr r)"
    and d: "d = (case serviceOpt of None \<Rightarrow> 45 | Some consultation \<Rightarrow> 15 | Some treatment \<Rightarrow> 45
                   | Some extraction \<Rightarrow> 45 | Some prosthetics \<Rightarrow> 45)"
    and off: "off = (case tz of Some m \<Rightarrow> m | None \<Rightarrow> 0)"
  shows "\<exists>date starts. dateInstant dateStr = Some date
     \<and> generateSlots tza date 15 d (Some off) = Some starts
     \<and> generateSlots tza date 15 15 (Some off) = Some (workingSlots r)
     \<and> (\<forall>x. (x \<in> set (busySlots r))
              = (x \<in> set (workingSlots r)
                 \<and> containedInFetched P docs (localMidnightUtcMs date (off * 60000)) x))
     \<and> availableSlots r
         = (if equalsPrintedDate dateStr ((nowMs + off * 60000) div 86400000)
            then filter (\<lambda>t. nowMs < t \<and> (\<forall>i. 0 \<le> i \<and> i * 15 < d \<longrightarrow>
                     \<not> containedInFetched P docs (localMidnightUtcMs date (off * 60000))
                          (t + i * 15 * 60000))) starts
            else filter (\<lambda>t. \<forall>i. 0 \<le> i \<and> i * 15 < d \<longrightarrow>
                     \<not> containedInFetched P docs (localMidnightUtcMs date (off * 60000))
                          (t + i * 15 * 60000)) starts)"
proof -
  have o: "finiteOrZero tz = off" by (simp add: off finiteOrZero_def)
  have dd: "(case serviceOpt of Some s \<Rightarrow> SERVICE_DURATION_MINUTES s | None \<Rightarrow> 45) = d"
    unfolding d by (rule duration_of_service)
  from getAvailabilityForDate_Inr[OF r] obtain date ivs where
    dt: "dateInstant dateStr = Some date"
    and iv: "getBusyIntervalsISO docs date (Some (finiteOrZero tz)) = Inr ivs"
    and w0: "workingSlots r
       = map (\<lambda>k. windowStartMs tza date (Some (finiteOrZero tz)) + int k * 900000)
           [0..<slotCount (windowStartMs tza date (Some (finiteOrZero tz)))
                  (windowEndMs tza date (Some (finiteOrZero tz))) 15 15]"
    and b0: "busySlots r = markBusy P ivs (workingSlots r)"
    and a0: "availableSlots r =
       (if equalsPrintedDate dateStr (isoYmd (nowMs + finiteOrZero tz * 60000))
        then filter (\<lambda>iso. iso > nowMs)
               (filter (chunksFree (busySlots r)
                          (max 1 (ceilDiv (case serviceOpt of Some s \<Rightarrow> SERVICE_DURATION_MINUTES s | None \<Rightarrow> 45) 15)) 15)
                  (map (\<lambda>k. windowStartMs tza date (Some (finiteOrZero tz)) + int k * 900000)
                     [0..<slotCount (windowStartMs tza date (Some (finiteOrZero tz)))
                            (windowEndMs tza date (Some (finiteOrZero tz))) 15
                            (case serviceOpt of Some s \<Rightarrow> SERVICE_DURATION_MINUTES s | None \<Rightarrow> 45)]))
        else filter (chunksFree (busySlots r)
                          (max 1 (ceilDiv (case serviceOpt of Some s \<Rightarrow> SERVICE_DURATION_MINUTES s | None \<Rightarrow> 45) 15)) 15)
                  (map (\<lambda>k. windowStartMs tza date (Some (finiteOrZero tz)) + int k * 900000)
                     [0..<slotCount (windowStartMs tza date (Some (finiteOrZero tz)))
                            (windowEndMs tza date (Some (finiteOrZero tz))) 15
                            (case serviceOpt of Some s \<Rightarrow> SERVICE_DURATION_MINUTES s | None \<Rightarrow> 45)]))"
    by blast
  define ws where "ws = windowStartMs tza date (Some off)"
  define we where "we = windowEndMs tza date (Some off)"
  define grid where "grid = map (\<lambda>k. ws + int k * 900000) [0..<slotCount ws we 15 15]"
  define starts where "starts = map (\<lambda>k. ws + int k * 900000) [0..<slotCount ws we 15 d]"
  define c where "c = max 1 (ceilDiv d 15)"
  define Q where "Q = (\<lambda>t. \<forall>i. 0 \<le> i \<and> i * 15 < d \<longrightarrow>
      \<not> containedInFetched P docs (localMidnightUtcMs date (off * 60000)) (t + i * 15 * 60000))"
  have cd: "c * 15 = d" unfolding c_def using chunks_of_duration[of serviceOpt] dd by simp
  have iv': "getBusyIntervalsISO docs date (Some off) = Inr ivs"
    using iv by (simp only: o)
  have w: "workingSlots r = grid"
    using w0 by (simp only: o grid_def ws_def we_def)
  have b: "busySlots r = markBusy P ivs grid"
    using b0 by (simp only: w)
  have a: "availableSlots r =
       (if equalsPrintedDate dateStr ((nowMs + off * 60000) div 86400000)
        then filter (\<lambda>iso. iso > nowMs) (filter (chunksFree (markBusy P ivs grid) c 15) starts)
        else filter (chunksFree (markBusy P ivs grid) c 15) starts)"
    using a0 by (simp only: o dd b c_def starts_def ws_def we_def isoYmd_def)
  have fr: "filter (chunksFree (markBusy P ivs grid) c 15) starts = filter Q starts"
    unfolding grid_def starts_def Q_def by (rule free_starts[OF iv' cd])
  have ff: "filter (\<lambda>iso. iso > nowMs) (filter Q starts) = filter (\<lambda>t. nowMs < t \<and> Q t) starts"
    by (simp add: conj_commute)
  have g1: "generateSlots tza date 15 d (Some off) = Some starts"
    unfolding starts_def ws_def we_def by (rule generateSlots_15)
  have g2: "generateSlots tza date 15 15 (Some off) = Some (workingSlots r)"
    unfolding w grid_def ws_def we_def by (rule generateSlots_15)
  have bs: "\<forall>x. (x \<in> set (busySlots r))
      = (x \<in> set (workingSlots r) \<and> containedInFetched P docs (localMidnightUtcMs date (off * 60000)) x)"
    unfolding b w set_markBusy using fetched_iff[OF iv', of P] by simp
  have av: "availableSlots r
         = (if equalsPrintedDate dateStr ((nowMs + off * 60000) div 86400000)
            then filter (\<lambda>t. nowMs < t \<and> Q t) starts else filter Q starts)"
    unfolding a fr ff ..
  show ?thesis
    using dt g1 g2 bs av unfolding Q_def by (intro exI[of _ date] exI[of _ starts] conjI)
qed





text \<open>
  A date string that is not the printed form of a day equals no printed date, so a query
  for it never has its past slots removed.
\<close>

lemma availableSlots_other_date:
  assumes r: "getAvailabilityForDate P tza nowMs docs (OtherDate t) serviceOpt tz = Some (Inr r)"
    and d: "d = (case serviceOpt of None \<Rightarrow> 45 | Some consultation \<Rightarrow> 15 | Some treatment \<Rightarrow> 45
                   | Some extraction \<Rightarrow> 45 | Some prosthetics \<Rightarrow> 45)"
    and off: "off = (case tz of Some m \<Rightarrow> m | None \<Rightarrow> 0)"
  shows "\<exists>starts. generateSlots tza t 15 d (Some off) = Some starts
     \<and> availableSlots r
         = filter (\<lambda>x. \<forall>i. 0 \<le> i \<and> i * 15 < d \<longrightarrow>
                     \<not> containedInFetched P docs (localMidnightUtcMs t (off * 60000))
                          (x + i * 15 * 60000)) starts"
proof -
  from availability_answer[OF r d off] obtain date starts where
    dt: "dateInstant (OtherDate t) = Some date"
    and g1: "generateSlots tza date 15 d (Some off) = Some starts"
    and av: "availableSlots r
       = (if equalsPrintedDate (OtherDate t) ((nowMs + off * 60000) div 86400000)
          then filter (\<lambda>x. nowMs < x \<and> (\<forall>i. 0 \<le> i \<and> i * 15 < d \<longrightarrow>
                   \<not> containedInFetched P docs (localMidnightUtcMs date (off * 60000))
                        (x + i * 15 * 60000))) starts
          else filter (\<lambda>x. \<forall>i. 0 \<le> i \<and> i * 15 < d \<longrightarrow>
                   \<not> containedInFetched P docs (localMidnightUtcMs date (off * 60000))
                        (x + i * 15 * 60000)) starts)"
    by blast
  have date: "date = t" using dt by (simp split: if_splits)
  show ?thesis using g1 av unfolding date by simp
qed

lemma working_hours_cases:
  "(startHour (getWorkingHours tza t tz) = 9 \<and> endHour (getWorkingHours tza t tz) = 13)
   \<or> (startHour (getWorkingHours tza t tz) = 9 \<and> endHour (getWorkingHours tza t tz) = 18)"
  by (simp add: getWorkingHours_def Let_def)

lemma workingSlots_count:
  assumes r: "getAvailabilityForDate P tza nowMs docs dateStr serviceOpt tz = Some (Inr r)"
  shows "\<exists>date. dateInstant dateStr = Some date
     \<and> int (length (workingSlots r))
         = (endHour (getWorkingHours tza date (Some (finiteOrZero tz)))
              - startHour (getWorkingHours tza date (Some (finiteOrZero tz)))) * 60 div 15
     \<and> (length (workingSlots r) = 36 \<or> length (workingSlots r) = 16)"
proof -
  from getAvailabilityForDate_Inr[OF r] obtain date where
    dt: "dateInstant dateStr = Some date"
    and w: "workingSlots r
         = map (\<lambda>k. windowStartMs tza date (Some (finiteOrZero tz)) + int k * 900000)
             [0..<slotCount (windowStartMs tza date (Some (finiteOrZero tz)))
                    (windowEndMs tza date (Some (finiteOrZero tz))) 15 15]"
    by blast
  let ?w = "getWorkingHours tza date (Some (finiteOrZero tz))"
  let ?ws = "windowStartMs tza date (Some (finiteOrZero tz))"
  let ?we = "windowEndMs tza date (Some (finiteOrZero tz))"
  have hours: "(startHour ?w = 9 \<and> endHour ?w = 13) \<or> (startHour ?w = 9 \<and> endHour ?w = 18)"
    by (rule working_hours_cases)
  have len: "?we - ?ws = (endHour ?w - startHour ?w) * 3600000"
    by (simp add: windowStartMs_def windowEndMs_def algebra_simps)
  have "?we - 15 * 60000 - ?ws = (endHour ?w - startHour ?w) * 3600000 - 900000"
    using len by simp
  then have cnt: "int (slotCount ?ws ?we 15 15) = (endHour ?w - startHour ?w) * 60 div 15"
    using hours by (auto simp: slotCount_def)
  have l: "length (workingSlots r) = slotCount ?ws ?we 15 15"
    unfolding w by simp
  have "slotCount ?ws ?we 15 15 = 36 \<or> slotCount ?ws ?we 15 15 = 16"
    using cnt hours by auto
  then show ?thesis using dt cnt l by auto
qed

lemma localMidnight_bounds:
  "date - 86400000 < localMidnightUtcMs date offsetMs \<and> localMidnightUtcMs date offsetMs \<le> date"
proof -
  have "(date - offsetMs) div 86400000 * 86400000 \<le> date - offsetMs"
    by simp
  moreover have "date - offsetMs < (date - offsetMs) div 86400000 * 86400000 + 86400000"
    using pos_mod_bound[of 86400000 "date - offsetMs"]
    by (simp add: minus_mult_div_eq_mod[symmetric] algebra_simps)
  ultimately show ?thesis
    by (simp add: localMidnightUtcMs_def midnightUtc_def isoYmd_def)
qed

lemma grid_valid:
  assumes lo: "- 8640000000000000 \<le> ws" and hi: "we \<le> 8640000000000000" and d: "0 \<le> d"
  shows "list_all validDate (map (\<lambda>k. ws + int k * 900000) [0..<slotCount ws we 15 d])"
proof -
  have "validDate (ws + int k * 900000)" if k: "k < slotCount ws we 15 d" for k
  proof -
    have "ws + int k * (15 * 60000) + d * 60000 \<le> we"
      using slotCount_iff[of 15 k ws we d] k by simp
    then show ?thesis using lo hi d by (simp add: validDate_def)
  qed
  then show ?thesis by (simp add: list_all_iff)
qed

text \<open>
  A query for a date more than a day inside the range of \<^verbatim>\<open>Date\<close>, with an offset that
  leaves the date and the current instant in range, answers.
\<close>

lemma getAvailabilityForDate_in_range:
  assumes y: "- 99999998 \<le> ymd" "ymd \<le> 99999998"
    and o: "validDate (ymd * 86400000 - finiteOrZero tz * 60000)"
    and n: "validDate (nowMs + finiteOrZero tz * 60000)"
  shows "\<exists>r. getAvailabilityForDate P tza nowMs docs (Ymd ymd) serviceOpt tz = Some (Inr r)"
proof -
  let ?date = "ymd * 86400000"
  let ?off = "finiteOrZero tz"
  let ?lm = "localMidnightUtcMs ?date (?off * 60000)"
  let ?w = "getWorkingHours tza ?date (Some ?off)"
  let ?ws = "windowStartMs tza ?date (Some ?off)"
  let ?we = "windowEndMs tza ?date (Some ?off)"
  let ?d = "case serviceOpt of Some s \<Rightarrow> SERVICE_DURATION_MINUTES s | None \<Rightarrow> 45"
  have lm: "?date - 86400000 < ?lm \<and> ?lm \<le> ?date" by (rule localMidnight_bounds)
  have hours: "(startHour ?w = 9 \<and> endHour ?w = 13) \<or> (startHour ?w = 9 \<and> endHour ?w = 18)"
    by (rule working_hours_cases)
  have ws: "?ws = ?lm + 9 * 3600000" using hours by (auto simp: windowStartMs_def)
  have we: "?we \<le> ?lm + 18 * 3600000" using hours by (auto simp: windowEndMs_def)
  have vd: "validDate ?date" using y by (simp add: validDate_def)
  have lo: "- 8640000000000000 \<le> ?ws" using ws lm y by simp
  have hi: "?we \<le> 8640000000000000" using we lm y by simp
  have d0: "0 \<le> ?d" unfolding duration_of_service by (simp split: option.split ServiceKey.split)
  have g1: "list_all validDate (map (\<lambda>k. ?ws + int k * 900000) [0..<slotCount ?ws ?we 15 15])"
    by (rule grid_valid[OF lo hi]) simp
  have g2: "list_all validDate (map (\<lambda>k. ?ws + int k * 900000) [0..<slotCount ?ws ?we 15 ?d])"
    by (rule grid_valid[OF lo hi d0])
  have b: "validDate ?lm \<and> validDate (?lm + 24 * 60 * 60000 - 1)"
    using lm y by (simp add: validDate_def)
  have busy: "\<exists>ivs. getBusyIntervalsISO docs ?date (Some ?off) = Inr ivs"
    using b o by (simp add: getBusyIntervalsISO_def Let_def)
  then obtain ivs where ivs: "getBusyIntervalsISO docs ?date (Some ?off) = Inr ivs" by blast
  show ?thesis
    unfolding getAvailabilityForDate_def Let_def generateSlots_15 toISOStrings_def
    using vd o n g1 g2 ivs by (simp add: midnightUtc_def)
qed

text \<open>
  Claim C6. The claim is 36 working slots on weekdays and 16 on weekends, for every date.
  The number of working slots is always \<open>(endHour - startHour) * 60 / 15\<close> for the
  window that was resolved (lemma \<open>workingSlots_count\<close>), but the window is resolved for
  the instant \<open>date at 00:00Z - offsetMs\<close>, which for a positive offset lies in the previous
  day: Monday 2024-06-10 asked with \<^verbatim>\<open>tzOffset=300\<close> gets the 16 slots of Sunday
  2024-06-09 (from 14:00Z, which is 09:00 at that offset).
\<close>

theorem workingSlots_monday_offset_300:
  "getDay (civilDay 2024 6 10) = 1
   \<and> getAvailabilityForDate P (\<lambda>_. 0) (isoUTC 2024 1 1 0 0) [] (Ymd (civilDay 2024 6 10)) None (Some 300)
     = Some (Inr \<lparr>availableSlots = map (\<lambda>k. isoUTC 2024 6 9 14 0 + k * 900000) [0 .. 13],
                  busySlots = [],
                  workingSlots = map (\<lambda>k. isoUTC 2024 6 9 14 0 + k * 900000) [0 .. 15]\<rparr>)"
  by code_simp

text \<open>
  Claim C8. The claim is that past slots are removed exactly when the requested date is
  today in the client's zone, with the offset used as everywhere else
  (\<open>local = instant - offsetMs\<close>). The filter computes today from \<open>nowMs + offsetMs\<close>.
  With \<^verbatim>\<open>tzOffset=-330\<close> at 2024-06-10T04:00Z (09:30 local) a request for 2024-06-10,
  the client's today, keeps the slots of 03:30Z and 03:45Z, which are past. With
  \<^verbatim>\<open>tzOffset=-240\<close> at 2024-06-10T21:00Z (01:00 local on 2024-06-11) a request for
  2024-06-10, which is not the client's today, has all its slots removed.
\<close>

theorem today_filter_sign:
  "isoYmd (isoUTC 2024 6 10 4 0 - (- 330) * 60000) = civilDay 2024 6 10
   \<and> getAvailabilityForDate P (\<lambda>_. 0) (isoUTC 2024 6 10 4 0) [] (Ymd (civilDay 2024 6 10))
        (Some consultation) (Some (- 330))
     = Some (Inr \<lparr>availableSlots = map (\<lambda>k. isoUTC 2024 6 10 3 30 + k * 900000) [0 .. 35],
                  busySlots = [],
                  workingSlots = map (\<lambda>k. isoUTC 2024 6 10 3 30 + k * 900000) [0 .. 35]\<rparr>)
   \<and> isoUTC 2024 6 10 3 30 \<le> isoUTC 2024 6 10 4 0
   \<and> isoYmd (isoUTC 2024 6 10 21 0 - (- 240) * 60000) = civilDay 2024 6 11
   \<and> getAvailabilityForDate P (\<lambda>_. 0) (isoUTC 2024 6 10 21 0) [] (Ymd (civilDay 2024 6 10))
        (Some consultation) (Some (- 240))
     = Some (Inr \<lparr>availableSlots = [],
                  busySlots = [],
                  workingSlots = map (\<lambda>k. isoUTC 2024 6 10 5 0 + k * 900000) [0 .. 35]\<rparr>)"
  by code_simp

text \<open>
  The scenario of the specification: 2024-06-10 with offset 0 and an empty store, on a host
  on UTC, has 36 working slots from 09:00Z to 17:45Z.
\<close>

lemma scenario_monday_utc:
  "getAvailabilityForDate P (\<lambda>_. 0) (isoUTC 2024 1 1 0 0) [] (Ymd (civilDay 2024 6 10)) None (Some 0)
     = Some (Inr \<lparr>availableSlots = map (\<lambda>k. isoUTC 2024 6 10 9 0 + k * 900000) [0 .. 33],
                  busySlots = [],
                  workingSlots = map (\<lambda>k. isoUTC 2024 6 10 9 0 + k * 900000) [0 .. 35]\<rparr>)
   \<and> isoUTC 2024 6 10 9 0 + 35 * 900000 = isoUTC 2024 6 10 17 45"
  by code_simp

text \<open>
  A date string that is not of the form \<^verbatim>\<open>toISOString()\<close> prints is never today:
  \<^verbatim>\<open>2024-06\<close> is read as 2024-06-01, and at 10:00Z of that day no past slot is removed.
  An offset or a date that takes a \<^verbatim>\<open>Date\<close> out of range makes the query throw
  \<^verbatim>\<open>RangeError\<close>.
\<close>

lemma other_date_never_today:
  "getAvailabilityForDate P (\<lambda>_. 0) (isoUTC 2024 6 1 10 0) [] (OtherDate (isoUTC 2024 6 1 0 0))
        (Some consultation) (Some 0)
     = Some (Inr \<lparr>availableSlots = map (\<lambda>k. isoUTC 2024 6 1 9 0 + k * 900000) [0 .. 15],
                  busySlots = [],
                  workingSlots = map (\<lambda>k. isoUTC 2024 6 1 9 0 + k * 900000) [0 .. 15]\<rparr>)"
  by code_simp

lemma availability_RangeError:
  "getAvailabilityForDate P (\<lambda>_. 0) 0 [] (Ymd (civilDay 2024 6 10)) None (Some 1000000000000)
     = Some (Inl RangeError)
   \<and> getAvailabilityForDate P (\<lambda>_. 0) 0 [] (OtherDate 8640000000000000) None (Some 0)
     = Some (Inl RangeError)"
  by code_simp

end
